theory Spec2Isabelle
  imports Main "HOL-Library.Multiset"
begin

section \<open>Data model\<close>

text \<open>
  The external sorter of \<^verbatim>\<open>include/stxxl/bits/stream/sort_stream.h\<close>,
  \<^verbatim>\<open>include/stxxl/bits/containers/sorter.h\<close> and
  \<^verbatim>\<open>include/stxxl/bits/algo/sort_helper.h\<close>.

  Conventions of the embedding.
  \<^item> \<^verbatim>\<open>size_t\<close> quantities are natural numbers. The only unguarded subtraction of the
    source (the memory handed to the inner merger of a recursive pass) is written out
    with its wrap-around; the guarded ones (\<^verbatim>\<open>a > b ? a - b : 0\<close>) are truncating
    subtraction.
  \<^item> A \<^verbatim>\<open>throw foxxll::bad_parameter\<close> is the value \<open>Inl InsufficientMemory\<close>, a
    failing \<^verbatim>\<open>assert\<close> is \<open>Inl ContractViolation\<close> (the build with assertions enabled).
  \<^item> The comparator object and the compile-time parameters, which the classes keep as
    members and template arguments, are passed explicitly to every operation.
\<close>

datatype error = InsufficientMemory | ContractViolation

text \<open>The comparator interface: \<^verbatim>\<open>operator()\<close>, \<^verbatim>\<open>min_value()\<close>, \<^verbatim>\<open>max_value()\<close>.\<close>

record 'a cmp_type =
  cmp_less :: "'a \<Rightarrow> 'a \<Rightarrow> bool"
  min_value :: 'a
  max_value :: 'a

text \<open>
  Compile-time parameters and settings that live outside the modelled files.
  \<^item> \<open>BlockSize\<close>: the template parameter, which is also \<^verbatim>\<open>block_type::raw_size\<close> and
    \<^verbatim>\<open>sizeof(block_type)\<close> (foxxll's \<^verbatim>\<open>typed_block\<close> statically asserts the two to be equal).
  \<^item> \<open>block_elems\<close>: \<^verbatim>\<open>block_type::size\<close>, the number of elements of a block.
  \<^item> \<open>disks_number\<close>: \<^verbatim>\<open>foxxll::config::get_instance()->disks_number()\<close>.
  \<^item> \<open>memory_usage_factor\<close>: \<^verbatim>\<open>sort_memory_usage_factor()\<close> of \<^verbatim>\<open>sort_base.h\<close>.
  \<^item> \<open>merge_factor_fn\<close>: \<^verbatim>\<open>optimal_merge_factor(num_runs, max_concurrent_runs)\<close> of
    \<^verbatim>\<open>sort_base.h\<close>, a floating point computation taken as a parameter.
\<close>

record config =
  BlockSize :: nat
  block_elems :: nat
  disks_number :: nat
  memory_usage_factor :: nat
  merge_factor_fn :: "nat \<Rightarrow> nat \<Rightarrow> nat"

text \<open>\<^verbatim>\<open>sort_helper::trigger_entry\<close>: a block id and the first element of the block.\<close>

record 'a trigger_entry =
  bid :: nat
  trig_value :: 'a

type_synonym 'a run_type = "'a trigger_entry list"

text \<open>
  Modelled from the spec: \<^verbatim>\<open>sorted_runs\<close> (\<^verbatim>\<open>sorted_runs.h\<close> is not among the sources), the
  sorted-runs descriptor of section 3: the list of runs, the per-run element counts, the
  total element count and the small-run buffer.
\<close>

record 'a sorted_runs =
  runs :: "'a run_type list"
  runs_sizes :: "nat list"
  elements :: nat
  small_run :: "'a list"

definition empty_sorted_runs :: "'a sorted_runs" where
  "empty_sorted_runs = \<lparr>runs = [], runs_sizes = [], elements = 0, small_run = []\<rparr>"

section \<open>Sentinel validation and construction\<close>

text \<open>\<^verbatim>\<open>sort_helper::verify_sentinel_strict_weak_ordering\<close>: four assertions in sequence.\<close>

definition verify_sentinel_strict_weak_ordering :: "'a cmp_type \<Rightarrow> error + unit" where
  "verify_sentinel_strict_weak_ordering c =
     (if \<not> (\<not> cmp_less c (min_value c) (min_value c)) then Inl ContractViolation
      else if \<not> cmp_less c (min_value c) (max_value c) then Inl ContractViolation
      else if \<not> (\<not> cmp_less c (max_value c) (min_value c)) then Inl ContractViolation
      else if \<not> (\<not> cmp_less c (max_value c) (max_value c)) then Inl ContractViolation
      else Inr ())"

definition sentinels_ok :: "'a cmp_type \<Rightarrow> bool" where
  "sentinels_ok c \<longleftrightarrow>
     \<not> cmp_less c (min_value c) (min_value c) \<and> cmp_less c (min_value c) (max_value c) \<and>
     \<not> cmp_less c (max_value c) (min_value c) \<and> \<not> cmp_less c (max_value c) (max_value c)"

text \<open>
  The stream-mode creator \<^verbatim>\<open>basic_runs_creator\<close>. \<open>m_input\<close> is the input stream, as
  the list of the elements it still yields.
\<close>

record 'a basic_runs_creator =
  m_input :: "'a list"
  bc_result :: "'a sorted_runs"
  m_memsize :: nat
  bc_result_computed :: bool

definition basic_runs_creator_ctor ::
  "config \<Rightarrow> 'a cmp_type \<Rightarrow> 'a list \<Rightarrow> nat \<Rightarrow> error + 'a basic_runs_creator" where
  "basic_runs_creator_ctor cfg c inp memory_to_use =
     (case verify_sentinel_strict_weak_ordering c of
        Inl e \<Rightarrow> Inl e
      | Inr _ \<Rightarrow>
          if \<not> (2 * BlockSize cfg * memory_usage_factor cfg \<le> memory_to_use)
          then Inl InsufficientMemory
          else
            let ms = memory_to_use div BlockSize cfg div memory_usage_factor cfg in
            if \<not> (ms > 0) then Inl ContractViolation
            else Inr \<lparr>m_input = inp, bc_result = empty_sorted_runs, m_memsize = ms,
                      bc_result_computed = False\<rparr>)"

text \<open>
  The push-mode creator \<^verbatim>\<open>runs_creator<use_push<ValueType>, ...>\<close>. \<open>m_blocks1\<close> holds
  the elements at positions \<open>[0, m_cur_el)\<close> of the accumulation buffer (the positions
  behind them are never read before they are written); \<open>buffers_allocated\<close> says that
  \<^verbatim>\<open>m_blocks1\<close> is not null.
\<close>

record 'a runs_creator =
  m_result :: "'a sorted_runs"
  m_m2 :: nat
  m_el_in_run :: nat
  m_result_computed :: bool
  m_cur_el :: nat
  m_blocks1 :: "'a list"
  buffers_allocated :: bool

text \<open>
  The constructor ends in \<^verbatim>\<open>allocate()\<close>, which allocates the buffers and, through
  \<^verbatim>\<open>clear()\<close>, installs a new empty result (\<^verbatim>\<open>m_result\<close> is still null there).
\<close>

definition runs_creator_ctor ::
  "config \<Rightarrow> 'a cmp_type \<Rightarrow> nat \<Rightarrow> error + 'a runs_creator" where
  "runs_creator_ctor cfg c memory_to_use =
     (let ms = memory_to_use div BlockSize cfg div memory_usage_factor cfg;
          m2 = ms div 2
      in case verify_sentinel_strict_weak_ordering c of
        Inl e \<Rightarrow> Inl e
      | Inr _ \<Rightarrow>
          if \<not> (2 * BlockSize cfg * memory_usage_factor cfg \<le> memory_to_use)
          then Inl InsufficientMemory
          else if \<not> (m2 > 0) then Inl ContractViolation
          else Inr \<lparr>m_result = empty_sorted_runs, m_m2 = m2,
                    m_el_in_run = m2 * block_elems cfg, m_result_computed = False,
                    m_cur_el = 0, m_blocks1 = [], buffers_allocated = True\<rparr>)"

text \<open>
  The creator for presorted sequences, \<^verbatim>\<open>runs_creator<from_sorted_sequences<ValueType>, ...>\<close>;
  only its constructor is modelled. Here the assertion on \<^verbatim>\<open>m_\<close> precedes the memory check.
\<close>

record 'a sorted_sequences_creator =
  result_ :: "'a sorted_runs"
  m_ :: nat
  offset :: nat
  iblock :: nat
  irun :: nat

definition sorted_sequences_creator_ctor ::
  "config \<Rightarrow> 'a cmp_type \<Rightarrow> nat \<Rightarrow> error + 'a sorted_sequences_creator" where
  "sorted_sequences_creator_ctor cfg c memory_to_use =
     (let m = memory_to_use div BlockSize cfg div memory_usage_factor cfg
      in case verify_sentinel_strict_weak_ordering c of
        Inl e \<Rightarrow> Inl e
      | Inr _ \<Rightarrow>
          if \<not> (m > 0) then Inl ContractViolation
          else if \<not> (2 * BlockSize cfg * memory_usage_factor cfg \<le> memory_to_use)
          then Inl InsufficientMemory
          else Inr \<lparr>result_ = empty_sorted_runs, m_ = m, offset = 0, iblock = 0, irun = 0\<rparr>)"

section \<open>Run cursors and their comparator\<close>

text \<open>
  Modelled from the spec: \<^verbatim>\<open>run_cursor2\<close> (\<^verbatim>\<open>run_cursor.h\<close> is not among the sources), a
  position in a buffered block. The cursor is empty once its position has left the block;
  \<open>current\<close> reads the element under the cursor.
\<close>

record 'a run_cursor2 =
  pos :: nat
  buffer :: "'a list"

definition cursor_empty :: "config \<Rightarrow> 'a run_cursor2 \<Rightarrow> bool" where
  "cursor_empty cfg a \<longleftrightarrow> pos a \<ge> block_elems cfg"

definition current :: "'a run_cursor2 \<Rightarrow> 'a" where
  "current a = buffer a ! pos a"

text \<open>\<^verbatim>\<open>sort_helper::run_cursor2_cmp::operator()\<close>.\<close>

definition run_cursor2_cmp ::
  "config \<Rightarrow> 'a cmp_type \<Rightarrow> 'a run_cursor2 \<Rightarrow> 'a run_cursor2 \<Rightarrow> bool" where
  "run_cursor2_cmp cfg c a b =
     (if cursor_empty cfg b then True
      else if cursor_empty cfg a then False
      else cmp_less c (current a) (current b))"

text \<open>\<^verbatim>\<open>sort_helper::trigger_entry_cmp::operator()\<close>.\<close>

definition trigger_entry_cmp ::
  "'a cmp_type \<Rightarrow> 'a trigger_entry \<Rightarrow> 'a trigger_entry \<Rightarrow> bool" where
  "trigger_entry_cmp c a b = cmp_less c (trig_value a) (trig_value b)"


section \<open>The merger's state\<close>

text \<open>
  The block prefetcher of the I/O layer, through the contract the merger consumes: it
  is built over the consume sequence, the prefetch schedule and a number of read
  buffers. It issues the reads in the order of the schedule, \<open>nextread\<close> counting the
  reads issued, and hands out the blocks in the order of the consume sequence;
  \<open>nextconsume\<close> is the index of the next block to hand out (\<^verbatim>\<open>pos()\<close>). \<open>fetched\<close> is
  the history of the reads: the ids of the blocks whose read was issued, in the order of
  issue. The schedule and the number of buffers decide when a block is read, not which
  data it holds.
\<close>

record 'a block_prefetcher =
  pf_consume_seq :: "'a run_type"
  pf_prefetch_seq :: "nat list"
  nextread :: nat
  nextconsume :: nat
  fetched :: "nat list"

text \<open>
  Modelled from the spec: \<^verbatim>\<open>loser_tree\<close> (\<^verbatim>\<open>losertree.h\<close> is not among the sources), the
  k-way merger over \<open>n\<close> run cursors, each backed by the prefetcher.
\<close>

record 'a loser_tree =
  cursors :: "'a run_cursor2 list"

text \<open>
  \<^verbatim>\<open>basic_runs_merger\<close>. \<open>m_sruns\<close> is the shared descriptor (\<open>None\<close> is the null
  pointer). \<open>m_current_ptr\<close> and \<open>m_current_end\<close> are offsets into the array they point
  into, which is the small-run buffer of the descriptor when \<open>in_small_run\<close> holds and
  \<open>m_buffer_block\<close> otherwise. \<open>m_buffer_block\<close> holds the elements the last refill
  wrote, from the start of the block.
\<close>

record 'a runs_merger =
  m_memory_to_use :: nat
  m_sruns :: "'a sorted_runs option"
  m_elements_remaining :: nat
  m_buffer_block :: "'a list"
  in_small_run :: bool
  m_current_ptr :: nat
  m_current_end :: nat
  m_consume_seq :: "'a run_type"
  m_prefetch_seq :: "nat list"
  m_prefetcher :: "'a block_prefetcher option"
  m_losers :: "'a loser_tree option"

text \<open>The constructor; members it leaves uninitialised are given zero values.\<close>

definition basic_runs_merger_ctor :: "'a cmp_type \<Rightarrow> nat \<Rightarrow> error + 'a runs_merger" where
  "basic_runs_merger_ctor c memory_to_use =
     (case verify_sentinel_strict_weak_ordering c of
        Inl e \<Rightarrow> Inl e
      | Inr _ \<Rightarrow>
          Inr \<lparr>m_memory_to_use = memory_to_use, m_sruns = None, m_elements_remaining = 0,
               m_buffer_block = [], in_small_run = False, m_current_ptr = 0,
               m_current_end = 0, m_consume_seq = [], m_prefetch_seq = [],
               m_prefetcher = None, m_losers = None\<rparr>)"

section \<open>The block manager and the internal sort\<close>

text \<open>
  The block manager of the I/O layer, through the contract the sorter consumes: block
  ids are issued from a counter, so an id is never issued twice; a write stores the
  payload of a block under its id at once (request completion is not modelled); a freed
  block loses its payload. \<open>next_bid\<close> counts the ids issued so far.
\<close>

record 'a block_manager =
  disk :: "nat \<Rightarrow> 'a list"
  next_bid :: nat

definition new_block_manager :: "'a block_manager" where
  "new_block_manager = \<lparr>disk = (\<lambda>b. []), next_bid = 0\<rparr>"

definition new_blocks :: "nat \<Rightarrow> 'a block_manager \<Rightarrow> nat list \<times> 'a block_manager" where
  "new_blocks n bm = ([next_bid bm ..< next_bid bm + n], bm\<lparr>next_bid := next_bid bm + n\<rparr>)"

definition write_block :: "nat \<Rightarrow> 'a list \<Rightarrow> 'a block_manager \<Rightarrow> 'a block_manager" where
  "write_block b blk bm = bm\<lparr>disk := (disk bm)(b := blk)\<rparr>"

definition read_block :: "'a block_manager \<Rightarrow> nat \<Rightarrow> 'a list" where
  "read_block bm b = disk bm b"

definition delete_blocks :: "nat list \<Rightarrow> 'a block_manager \<Rightarrow> 'a block_manager" where
  "delete_blocks bs bm = bm\<lparr>disk := (\<lambda>b. if b \<in> set bs then [] else disk bm b)\<rparr>"

text \<open>\<^verbatim>\<open>foxxll::div_ceil\<close>.\<close>

definition div_ceil :: "nat \<Rightarrow> nat \<Rightarrow> nat" where
  "div_ceil a b = (a + b - 1) div b"

text \<open>
  Sorting with a comparator: insertion from the right, which keeps elements that the
  comparator does not order in their input order. It stands for \<^verbatim>\<open>std::stable_sort\<close>
  (whose result a strict weak order determines) and for the internal sort of a run.
\<close>

fun insort_by :: "('b \<Rightarrow> 'b \<Rightarrow> bool) \<Rightarrow> 'b \<Rightarrow> 'b list \<Rightarrow> 'b list" where
  "insort_by lt x [] = [x]"
| "insort_by lt x (y # ys) = (if lt y x then y # insort_by lt x ys else x # y # ys)"

definition stable_sort :: "('b \<Rightarrow> 'b \<Rightarrow> bool) \<Rightarrow> 'b list \<Rightarrow> 'b list" where
  "stable_sort lt xs = foldr (insort_by lt) xs []"

text \<open>
  The comparator contract: a strict weak order, that is an irreflexive and transitive
  relation whose incomparability is transitive as well.
\<close>

definition strict_weak_order :: "('b \<Rightarrow> 'b \<Rightarrow> bool) \<Rightarrow> bool" where
  "strict_weak_order lt \<longleftrightarrow>
     (\<forall>x. \<not> lt x x) \<and> (\<forall>x y z. lt x y \<longrightarrow> lt y z \<longrightarrow> lt x z) \<and>
     (\<forall>x y z. lt x z \<longrightarrow> lt x y \<or> lt y z)"

text \<open>\<^verbatim>\<open>sort_run\<close>: sort the first elements of a group of blocks.\<close>

definition sort_run :: "'a cmp_type \<Rightarrow> 'a list \<Rightarrow> 'a list" where
  "sort_run c xs = stable_sort (cmp_less c) xs"

text \<open>
  Modelled from the spec: the operations of \<^verbatim>\<open>sorted_runs\<close> (\<^verbatim>\<open>sorted_runs.h\<close> is not
  among the sources). \<open>add_run\<close> appends a run and its size; \<open>clear\<close> frees the blocks
  and empties the descriptor; destroying a descriptor frees its blocks.
\<close>

definition add_run :: "'a run_type \<Rightarrow> nat \<Rightarrow> 'a sorted_runs \<Rightarrow> 'a sorted_runs" where
  "add_run run len sr =
     sr\<lparr>runs := runs sr @ [run], runs_sizes := runs_sizes sr @ [len],
        elements := elements sr + len\<rparr>"

definition deallocate_blocks :: "'a sorted_runs \<Rightarrow> 'a block_manager \<Rightarrow> 'a block_manager" where
  "deallocate_blocks sr bm = delete_blocks (map bid (concat (runs sr))) bm"

definition sorted_runs_clear ::
  "'a sorted_runs \<Rightarrow> 'a block_manager \<Rightarrow> 'a sorted_runs \<times> 'a block_manager" where
  "sorted_runs_clear sr bm = (empty_sorted_runs, deallocate_blocks sr bm)"

section \<open>The push-mode run creator\<close>

text \<open>
  The loop shared by \<^verbatim>\<open>push\<close> and \<^verbatim>\<open>compute_result\<close>: resize the run to \<open>n\<close> blocks,
  take \<open>n\<close> new block ids, and for every block set the trigger to the first element of
  the block and write the block under its id. \<open>data\<close> is the content of the buffer.
\<close>

definition write_run ::
  "config \<Rightarrow> 'a list \<Rightarrow> nat \<Rightarrow> 'a block_manager \<Rightarrow> 'a run_type \<times> 'a block_manager" where
  "write_run cfg data n bm =
     (let (bids, bm1) = new_blocks n bm;
          run = map (\<lambda>i. \<lparr>bid = bids ! i, trig_value = data ! (i * block_elems cfg)\<rparr>) [0..<n];
          bm2 = foldl (\<lambda>m i. write_block (bids ! i)
                   (take (block_elems cfg) (drop (i * block_elems cfg) data)) m) bm1 [0..<n]
      in (run, bm2))"

text \<open>
  \<^verbatim>\<open>push\<close>. When the buffer holds a full run, the run is sorted and written, the halves
  are swapped and \<^verbatim>\<open>push\<close> calls itself; the value \<open>None\<close> is the case in which this
  recursion does not end (a run of zero elements).
\<close>

partial_function (option) push ::
  "config \<Rightarrow> 'a cmp_type \<Rightarrow> 'a \<Rightarrow> 'a runs_creator \<times> 'a block_manager \<Rightarrow>
   (error + 'a runs_creator \<times> 'a block_manager) option" where
  "push cfg c val st =
     (let cr = fst st; bm = snd st in
      if \<not> (m_result_computed cr = False) then Some (Inl ContractViolation)
      else if m_cur_el cr < m_el_in_run cr
      then Some (Inr (cr\<lparr>m_blocks1 := m_blocks1 cr @ [val], m_cur_el := m_cur_el cr + 1\<rparr>, bm))
      else if \<not> (m_el_in_run cr = m_cur_el cr) then Some (Inl ContractViolation)
      else
        let sorted = sort_run c (m_blocks1 cr);
            cur_run_blocks = div_ceil (m_el_in_run cr) (block_elems cfg);
            (run, bm1) = write_run cfg sorted cur_run_blocks bm
        in push cfg c val
             (cr\<lparr>m_cur_el := 0, m_blocks1 := [],
                 m_result := add_run run (m_el_in_run cr) (m_result cr)\<rparr>, bm1))"

declare push.simps [code]

text \<open>\<^verbatim>\<open>compute_result\<close> of the push-mode creator.\<close>

definition compute_result ::
  "config \<Rightarrow> 'a cmp_type \<Rightarrow> 'a runs_creator \<times> 'a block_manager \<Rightarrow>
   'a runs_creator \<times> 'a block_manager" where
  "compute_result cfg c st =
     (let cr = fst st; bm = snd st in
      if m_cur_el cr = 0 then (cr, bm)
      else
        let sorted = sort_run c (m_blocks1 cr) in
        if m_cur_el cr \<le> block_elems cfg \<and> elements (m_result cr) = 0
        then (cr\<lparr>m_blocks1 := sorted,
                 m_result := (m_result cr)\<lparr>small_run := take (m_cur_el cr) sorted,
                                           elements := m_cur_el cr\<rparr>\<rparr>, bm)
        else
          let cur_run_size = div_ceil (m_cur_el cr) (block_elems cfg);
              data = sorted @ replicate (cur_run_size * block_elems cfg - m_cur_el cr)
                                 (max_value c);
              (run, bm1) = write_run cfg data cur_run_size bm
          in (cr\<lparr>m_blocks1 := sorted, m_result := add_run run (m_cur_el cr) (m_result cr)\<rparr>,
              bm1))"

text \<open>\<^verbatim>\<open>result\<close>, \<^verbatim>\<open>clear\<close>, \<^verbatim>\<open>allocate\<close>, \<^verbatim>\<open>deallocate\<close> and \<^verbatim>\<open>size\<close> of the push-mode creator.\<close>

definition creator_result ::
  "config \<Rightarrow> 'a cmp_type \<Rightarrow> 'a runs_creator \<times> 'a block_manager \<Rightarrow>
   'a runs_creator \<times> 'a block_manager" where
  "creator_result cfg c st =
     (if \<not> m_result_computed (fst st)
      then (let (cr, bm) = compute_result cfg c st in (cr\<lparr>m_result_computed := True\<rparr>, bm))
      else st)"

definition creator_clear ::
  "'a runs_creator \<times> 'a block_manager \<Rightarrow> 'a runs_creator \<times> 'a block_manager" where
  "creator_clear st =
     (let cr = fst st; (r, bm) = sorted_runs_clear (m_result cr) (snd st)
      in (cr\<lparr>m_result := r, m_result_computed := False, m_cur_el := 0, m_blocks1 := []\<rparr>, bm))"

definition creator_allocate ::
  "'a runs_creator \<times> 'a block_manager \<Rightarrow> 'a runs_creator \<times> 'a block_manager" where
  "creator_allocate st =
     (let cr = fst st;
          cr1 = (if \<not> buffers_allocated cr
                 then cr\<lparr>m_blocks1 := [], buffers_allocated := True\<rparr> else cr)
      in creator_clear (cr1, snd st))"

definition creator_deallocate ::
  "config \<Rightarrow> 'a cmp_type \<Rightarrow> 'a runs_creator \<times> 'a block_manager \<Rightarrow>
   'a runs_creator \<times> 'a block_manager" where
  "creator_deallocate cfg c st =
     (let (cr, bm) = creator_result cfg c st
      in if buffers_allocated cr
         then (cr\<lparr>m_blocks1 := [], buffers_allocated := False\<rparr>, bm)
         else (cr, bm))"

definition creator_size :: "'a runs_creator \<Rightarrow> nat" where
  "creator_size cr = elements (m_result cr) + m_cur_el cr"

section \<open>Prefetcher, run cursors and the loser tree\<close>

text \<open>
  The prefetcher's contract. The constructor issues the reads of the first blocks of the
  schedule, one per read buffer. \<open>pull_block\<close> hands out the next block of the consume
  sequence. \<open>block_consumed\<close> takes a consumed buffer back, issues the next read of the
  schedule into it and, when the consume sequence has blocks left, hands out the next
  block and answers true.
\<close>

definition issue_read :: "'a block_prefetcher \<Rightarrow> 'a block_prefetcher" where
  "issue_read pf =
     (if nextread pf < length (pf_consume_seq pf)
      then pf\<lparr>fetched := fetched pf
                  @ [bid (pf_consume_seq pf ! (pf_prefetch_seq pf ! nextread pf))],
              nextread := nextread pf + 1\<rparr>
      else pf)"

definition block_prefetcher_ctor ::
  "'a run_type \<Rightarrow> nat list \<Rightarrow> nat \<Rightarrow> 'a block_prefetcher" where
  "block_prefetcher_ctor consume prefetch_seq nbuffers =
     (issue_read ^^ nbuffers)
       \<lparr>pf_consume_seq = consume, pf_prefetch_seq = prefetch_seq, nextread = 0,
        nextconsume = 0, fetched = []\<rparr>"

definition pull_block ::
  "'a block_manager \<Rightarrow> 'a block_prefetcher \<Rightarrow> 'a list \<times> 'a block_prefetcher" where
  "pull_block bm pf =
     ((if nextconsume pf < length (pf_consume_seq pf)
       then read_block bm (bid (pf_consume_seq pf ! nextconsume pf)) else []),
      pf\<lparr>nextconsume := nextconsume pf + 1\<rparr>)"

definition block_consumed ::
  "'a block_manager \<Rightarrow> 'a block_prefetcher \<Rightarrow> 'a list \<Rightarrow>
   bool \<times> 'a list \<times> 'a block_prefetcher" where
  "block_consumed bm pf buf =
     (let pf0 = issue_read pf in
      if nextconsume pf0 \<ge> length (pf_consume_seq pf0) then (False, buf, pf0)
      else (let (blk, pf1) = pull_block bm pf0 in (True, blk, pf1)))"

definition prefetcher_empty :: "'a block_prefetcher \<Rightarrow> bool" where
  "prefetcher_empty pf \<longleftrightarrow> nextconsume pf \<ge> length (pf_consume_seq pf)"

text \<open>
  Modelled from the spec: \<^verbatim>\<open>run_cursor2::operator++\<close> (\<^verbatim>\<open>run_cursor.h\<close> is not among the
  sources). The cursor steps to the next element; at the end of its block it hands the
  block back to the prefetcher and starts over on the block it gets in exchange, or
  stays empty when the prefetcher has no block left. Advancing an empty cursor is a
  contract violation, which \<open>multi_merge\<close> checks before it reads the cursor.
\<close>

definition cursor_inc ::
  "config \<Rightarrow> 'a block_manager \<Rightarrow> 'a block_prefetcher \<Rightarrow> 'a run_cursor2 \<Rightarrow>
   'a run_cursor2 \<times> 'a block_prefetcher" where
  "cursor_inc cfg bm pf a =
     (let a1 = a\<lparr>pos := pos a + 1\<rparr> in
      if pos a1 \<ge> block_elems cfg
      then (case block_consumed bm pf (buffer a1) of
              (True, blk, pf1) \<Rightarrow> (a1\<lparr>pos := 0, buffer := blk\<rparr>, pf1)
            | (False, blk, pf1) \<Rightarrow> (a1, pf1))
      else (a1, pf))"

text \<open>
  Modelled from the spec: the loser tree (\<^verbatim>\<open>losertree.h\<close> is not among the sources).
  Its constructor pulls one block per run from the prefetcher. \<open>winner\<close> is the cursor
  the tournament yields: one that no other cursor precedes under \<open>run_cursor2_cmp\<close>.
  \<open>multi_merge\<close> emits \<open>n\<close> elements: the element under the winner, after which the
  winner advances.
\<close>

fun pull_blocks ::
  "'a block_manager \<Rightarrow> nat \<Rightarrow> 'a block_prefetcher \<Rightarrow>
   'a run_cursor2 list \<times> 'a block_prefetcher" where
  "pull_blocks bm 0 pf = ([], pf)"
| "pull_blocks bm (Suc n) pf =
     (let (blk, pf1) = pull_block bm pf;
          (cs, pf2) = pull_blocks bm n pf1
      in (\<lparr>pos = 0, buffer = blk\<rparr> # cs, pf2))"

definition loser_tree_ctor ::
  "'a block_manager \<Rightarrow> 'a block_prefetcher \<Rightarrow> nat \<Rightarrow> 'a loser_tree \<times> 'a block_prefetcher" where
  "loser_tree_ctor bm pf nruns =
     (let (cs, pf1) = pull_blocks bm nruns pf in (\<lparr>cursors = cs\<rparr>, pf1))"

definition winner :: "config \<Rightarrow> 'a cmp_type \<Rightarrow> 'a run_cursor2 list \<Rightarrow> nat" where
  "winner cfg c cs =
     foldl (\<lambda>best i. if run_cursor2_cmp cfg c (cs ! i) (cs ! best) then i else best)
       0 [1..<length cs]"

fun multi_merge ::
  "config \<Rightarrow> 'a cmp_type \<Rightarrow> 'a block_manager \<Rightarrow> nat \<Rightarrow>
   'a loser_tree \<times> 'a block_prefetcher \<Rightarrow>
   error + ('a list \<times> 'a loser_tree \<times> 'a block_prefetcher)" where
  "multi_merge cfg c bm 0 st = Inr ([], st)"
| "multi_merge cfg c bm (Suc n) st =
     (let lt = fst st; pf = snd st; w = winner cfg c (cursors lt) in
      if \<not> w < length (cursors lt) \<or> cursor_empty cfg (cursors lt ! w)
      then Inl ContractViolation
      else
        let x = current (cursors lt ! w);
            (a, pf1) = cursor_inc cfg bm pf (cursors lt ! w)
        in case multi_merge cfg c bm n (lt\<lparr>cursors := (cursors lt)[w := a]\<rparr>, pf1) of
             Inl e \<Rightarrow> Inl e
           | Inr (xs, st1) \<Rightarrow> Inr (x # xs, st1))"

section \<open>The run merger\<close>

text \<open>
  The model is the build without \<^verbatim>\<open>STXXL_PARALLEL_MULTIWAY_MERGE\<close> and without
  \<^verbatim>\<open>STXXL_SORT_OPTIMAL_PREFETCHING\<close>: \<^verbatim>\<open>do_parallel_merge()\<close> is false, the merger
  uses the loser tree, and the prefetch schedule is the identity.
\<close>

definition merger_empty :: "'a runs_merger \<Rightarrow> bool" where
  "merger_empty mg \<longleftrightarrow> m_elements_remaining mg = 0"

definition merger_size :: "'a runs_merger \<Rightarrow> nat" where
  "merger_size mg = m_elements_remaining mg"

definition deallocate_prefetcher :: "'a runs_merger \<Rightarrow> 'a runs_merger" where
  "deallocate_prefetcher mg =
     (if m_prefetcher mg \<noteq> None
      then mg\<lparr>m_losers := None, m_prefetch_seq := [], m_prefetcher := None\<rparr>
      else mg)"

text \<open>\<^verbatim>\<open>fill_buffer_block\<close>, native merging procedure.\<close>

definition fill_buffer_block ::
  "config \<Rightarrow> 'a cmp_type \<Rightarrow> 'a block_manager \<Rightarrow> 'a runs_merger \<Rightarrow> error + 'a runs_merger" where
  "fill_buffer_block cfg c bm mg =
     (case (m_losers mg, m_prefetcher mg) of
        (Some lt, Some pf) \<Rightarrow>
          (case multi_merge cfg c bm
                  (min (block_elems cfg) (m_elements_remaining mg)) (lt, pf) of
             Inl e \<Rightarrow> Inl e
           | Inr (out, lt1, pf1) \<Rightarrow>
               let mg1 = mg\<lparr>m_buffer_block := out, m_losers := Some lt1,
                            m_prefetcher := Some pf1, in_small_run := False,
                            m_current_ptr := 0,
                            m_current_end := min (block_elems cfg) (m_elements_remaining mg)\<rparr>
               in Inr (if m_elements_remaining mg1 \<le> block_elems cfg
                       then deallocate_prefetcher mg1 else mg1))
      | _ \<Rightarrow> Inl ContractViolation)"

text \<open>\<^verbatim>\<open>operator*\<close>, \<^verbatim>\<open>next_output_would_block\<close> and \<^verbatim>\<open>operator++\<close> of the merger.\<close>

definition merger_deref :: "'a runs_merger \<Rightarrow> error + 'a" where
  "merger_deref mg =
     (if merger_empty mg then Inl ContractViolation
      else if in_small_run mg
      then (case m_sruns mg of
              None \<Rightarrow> Inl ContractViolation
            | Some d \<Rightarrow> Inr (small_run d ! m_current_ptr mg))
      else Inr (m_buffer_block mg ! m_current_ptr mg))"

definition next_output_would_block :: "'a runs_merger \<Rightarrow> bool" where
  "next_output_would_block mg \<longleftrightarrow> m_current_ptr mg + 1 = m_current_end mg"

text \<open>
  The condition under which \<^verbatim>\<open>operator++\<close> refills the output buffer, in terms of the
  state before the call: after the decrement and the increment, the pointer has reached
  the end and the merger is not empty.
\<close>

definition advance_refills :: "'a runs_merger \<Rightarrow> bool" where
  "advance_refills mg \<longleftrightarrow>
     m_current_ptr mg + 1 = m_current_end mg \<and> \<not> m_elements_remaining mg - 1 = 0"

definition merger_inc ::
  "config \<Rightarrow> 'a cmp_type \<Rightarrow> 'a block_manager \<Rightarrow> 'a runs_merger \<Rightarrow> error + 'a runs_merger" where
  "merger_inc cfg c bm mg =
     (if merger_empty mg then Inl ContractViolation
      else if \<not> (m_current_ptr mg \<noteq> m_current_end mg) then Inl ContractViolation
      else
        let mg1 = mg\<lparr>m_elements_remaining := m_elements_remaining mg - 1,
                     m_current_ptr := m_current_ptr mg + 1\<rparr>
        in if m_current_ptr mg1 = m_current_end mg1 \<and> \<not> merger_empty mg1
           then fill_buffer_block cfg c bm mg1
           else Inr mg1)"

text \<open>Reading a merger to its end: \<^verbatim>\<open>while (!merger.empty()) { *merger; ++merger; }\<close>.\<close>

lemma fill_buffer_block_remaining:
  "fill_buffer_block cfg c bm mg = Inr mg' \<Longrightarrow>
   m_elements_remaining mg' = m_elements_remaining mg"
  by (auto simp add: fill_buffer_block_def deallocate_prefetcher_def Let_def
      split: option.splits sum.splits prod.splits if_splits)

lemma merger_inc_remaining:
  "merger_inc cfg c bm mg = Inr mg' \<Longrightarrow>
   m_elements_remaining mg' = m_elements_remaining mg - 1 \<and> 0 < m_elements_remaining mg"
  by (auto simp add: merger_inc_def merger_empty_def Let_def
      dest!: fill_buffer_block_remaining split: if_splits)

function merger_drain ::
  "config \<Rightarrow> 'a cmp_type \<Rightarrow> 'a block_manager \<Rightarrow> 'a runs_merger \<Rightarrow>
   error + ('a list \<times> 'a runs_merger)" where
  "merger_drain cfg c bm mg =
     (if merger_empty mg then Inr ([], mg)
      else
        (case merger_deref mg of
           Inl e \<Rightarrow> Inl e
         | Inr x \<Rightarrow>
             (case merger_inc cfg c bm mg of
                Inl e \<Rightarrow> Inl e
              | Inr mg1 \<Rightarrow>
                  (case merger_drain cfg c bm mg1 of
                     Inl e \<Rightarrow> Inl e
                   | Inr (xs, mg2) \<Rightarrow> Inr (x # xs, mg2)))))"
  by pat_completeness auto
termination
  by (relation "measure (\<lambda>(cfg, c, bm, mg). m_elements_remaining mg)")
    (auto dest: merger_inc_remaining)

declare merger_drain.simps [simp del]

text \<open>\<^verbatim>\<open>set_memory_to_use\<close> and \<^verbatim>\<open>deallocate\<close> of the merger.\<close>

definition set_memory_to_use :: "nat \<Rightarrow> 'a runs_merger \<Rightarrow> 'a runs_merger" where
  "set_memory_to_use memory_to_use mg = mg\<lparr>m_memory_to_use := memory_to_use\<rparr>"

definition merger_deallocate :: "'a runs_merger \<Rightarrow> 'a runs_merger" where
  "merger_deallocate mg = (deallocate_prefetcher mg)\<lparr>m_sruns := None\<rparr>"

text \<open>
  The copy loop of a recursive pass, \<^verbatim>\<open>while (cnt != cnt_max)\<close>: read the element under
  the merger, advance the merger; the argument counts the elements still to copy.
\<close>

fun copy_elements ::
  "config \<Rightarrow> 'a cmp_type \<Rightarrow> 'a block_manager \<Rightarrow> nat \<Rightarrow> 'a runs_merger \<Rightarrow>
   error + ('a list \<times> 'a runs_merger)" where
  "copy_elements cfg c bm 0 mg = Inr ([], mg)"
| "copy_elements cfg c bm (Suc n) mg =
     (case merger_deref mg of
        Inl e \<Rightarrow> Inl e
      | Inr x \<Rightarrow>
          (case merger_inc cfg c bm mg of
             Inl e \<Rightarrow> Inl e
           | Inr mg1 \<Rightarrow>
               (case copy_elements cfg c bm n mg1 of
                  Inl e \<Rightarrow> Inl e
                | Inr (xs, mg2) \<Rightarrow> Inr (x # xs, mg2))))"

text \<open>
  The unguarded \<^verbatim>\<open>size_t\<close> subtraction \<^verbatim>\<open>m_memory_to_use - memory_for_write_buffers\<close>,
  with its wrap-around at \<open>2^64\<close>.
\<close>

definition size_t_sub :: "nat \<Rightarrow> nat \<Rightarrow> nat" where
  "size_t_sub a b = (if b \<le> a then a - b else a + 2 ^ 64 - b)"

section \<open>Recursive merging and initialization\<close>

text \<open>
  The memory arithmetic of \<^verbatim>\<open>initialize\<close> and \<^verbatim>\<open>merge_recursively\<close>: the number of
  input buffers of a single pass, and the maximum arity of the recursive merger, for a
  memory budget of \<open>M\<close> bytes.
\<close>

definition input_buffers_of :: "config \<Rightarrow> nat \<Rightarrow> nat" where
  "input_buffers_of cfg M = (if M > BlockSize cfg then M - BlockSize cfg else 0) div BlockSize cfg"

definition max_arity_of :: "config \<Rightarrow> nat \<Rightarrow> nat" where
  "max_arity_of cfg M =
     (let ndisks = disks_number cfg;
          nwrite_buffers = 2 * ndisks;
          memory_for_write_buffers = nwrite_buffers * BlockSize cfg;
          recursive_merger_memory_prefetch_buffers = 2 * ndisks * BlockSize cfg;
          recursive_merger_memory_out_block = BlockSize cfg;
          memory_for_buffers = memory_for_write_buffers
                               + recursive_merger_memory_prefetch_buffers
                               + recursive_merger_memory_out_block
      in (if M > memory_for_buffers then M - memory_for_buffers else 0) div BlockSize cfg)"

text \<open>
  The consume sequence: the trigger entries of all runs, stable-sorted by trigger value.
\<close>

definition consume_sequence :: "'a cmp_type \<Rightarrow> 'a sorted_runs \<Rightarrow> 'a run_type" where
  "consume_sequence c d = stable_sort (trigger_entry_cmp c) (concat (runs d))"

text \<open>
  \<^verbatim>\<open>merge_recursively\<close> builds an inner merger and initializes it, and \<^verbatim>\<open>initialize\<close>
  calls \<^verbatim>\<open>merge_recursively\<close>. The loops of \<^verbatim>\<open>merge_recursively\<close> take the
  initialization of the inner merger as the parameter \<open>init\<close>; \<open>initialize\<close> then closes
  the recursion with a bound on its depth, and answers \<open>None\<close> when the bound is used up.

  The loop \<^verbatim>\<open>while (runs_left > 0)\<close> over the groups of one pass. The assertions on the
  merge factor, which the source makes before its loops, stand at the head of both loops.
  \<open>merge_group\<close> is the body of the branch \<^verbatim>\<open>runs2merge > 1\<close>, the non-trivial merge of one
  group: it yields the new run, its element count and the block manager; \<open>first\<close> is
  \<^verbatim>\<open>nruns - runs_left\<close>.
\<close>

definition merge_group ::
  "('a sorted_runs \<Rightarrow> 'a runs_merger \<times> 'a block_manager \<Rightarrow>
      (error + 'a runs_merger \<times> 'a block_manager) option) \<Rightarrow>
   config \<Rightarrow> 'a cmp_type \<Rightarrow> nat \<Rightarrow> 'a sorted_runs \<Rightarrow> nat \<Rightarrow> nat \<Rightarrow> 'a block_manager \<Rightarrow>
   (error + 'a run_type \<times> nat \<times> 'a block_manager) option" where
  "merge_group init cfg c M d first runs2merge bm =
     (let elements_in_new_run = sum_list (take runs2merge (drop first (runs_sizes d)));
          blocks_in_new_run = div_ceil elements_in_new_run (block_elems cfg);
          (bids, bm1) = new_blocks blocks_in_new_run bm;
          cur_runs = \<lparr>runs = take runs2merge (drop first (runs d)),
                      runs_sizes = take runs2merge (drop first (runs_sizes d)),
                      elements = elements_in_new_run, small_run = []\<rparr>;
          memory_for_write_buffers = 2 * disks_number cfg * BlockSize cfg
      in case basic_runs_merger_ctor c (size_t_sub M memory_for_write_buffers) of
           Inl e \<Rightarrow> Some (Inl e)
         | Inr mg0 \<Rightarrow>
            (case init cur_runs (mg0, bm1) of
               None \<Rightarrow> None
             | Some (Inl e) \<Rightarrow> Some (Inl e)
             | Some (Inr (mg1, bm2)) \<Rightarrow>
                (case copy_elements cfg c bm2 elements_in_new_run mg1 of
                   Inl e \<Rightarrow> Some (Inl e)
                 | Inr (out, mg2) \<Rightarrow>
                    if \<not> merger_empty mg2 then Some (Inl ContractViolation)
                    else
                      (let data = out @ replicate
                             (blocks_in_new_run * block_elems cfg - elements_in_new_run)
                             (max_value c);
                           run = map (\<lambda>i. \<lparr>bid = bids ! i,
                                            trig_value = data ! (i * block_elems cfg)\<rparr>)
                                   [0..<blocks_in_new_run];
                           bm3 = foldl (\<lambda>m i. write_block (bids ! i)
                                    (take (block_elems cfg)
                                       (drop (i * block_elems cfg) data)) m)
                                   bm2 [0..<blocks_in_new_run];
                           bm4 = (case m_sruns mg2 of
                                    None \<Rightarrow> bm3
                                  | Some dd \<Rightarrow> deallocate_blocks dd bm3)
                       in Some (Inr (run, elements_in_new_run, bm4))))))"

function merge_groups ::
  "('a sorted_runs \<Rightarrow> 'a runs_merger \<times> 'a block_manager \<Rightarrow>
      (error + 'a runs_merger \<times> 'a block_manager) option) \<Rightarrow>
   config \<Rightarrow> 'a cmp_type \<Rightarrow> nat \<Rightarrow> nat \<Rightarrow> nat \<Rightarrow> 'a sorted_runs \<Rightarrow>
   nat \<Rightarrow> nat \<Rightarrow> nat \<Rightarrow> 'a sorted_runs \<Rightarrow> 'a block_manager \<Rightarrow>
   (error + nat \<times> 'a sorted_runs \<times> 'a block_manager) option" where
  "merge_groups init cfg c M merge_factor nruns d runs_left cur_out_run elements_left new_runs bm =
     (if \<not> merge_factor > 1 then Some (Inl ContractViolation)
      else if runs_left > 0 then
        (let runs2merge = min runs_left merge_factor in
         if runs2merge > 1 then
           (case merge_group init cfg c M d (nruns - runs_left) runs2merge bm of
              None \<Rightarrow> None
            | Some (Inl e) \<Rightarrow> Some (Inl e)
            | Some (Inr (run, elements_in_new_run, bm4)) \<Rightarrow>
                merge_groups init cfg c M merge_factor nruns d
                  (runs_left - runs2merge) (cur_out_run + 1)
                  (elements_left - elements_in_new_run)
                  (new_runs\<lparr>runs := (runs new_runs)[cur_out_run := run],
                            runs_sizes :=
                              (runs_sizes new_runs)[cur_out_run := elements_in_new_run]\<rparr>)
                  bm4)
         else
           if \<not> (cur_out_run + 1 = length (runs new_runs)) then Some (Inl ContractViolation)
           else
             merge_groups init cfg c M merge_factor nruns d
               (runs_left - runs2merge) (cur_out_run + 1)
               (elements_left - last (runs_sizes d))
               (new_runs\<lparr>runs := (runs new_runs)[length (runs new_runs) - 1 := last (runs d)],
                         runs_sizes := (runs_sizes new_runs)
                            [length (runs_sizes new_runs) - 1 := last (runs_sizes d)]\<rparr>)
               bm)
      else Some (Inr (elements_left, new_runs, bm)))"
  by pat_completeness auto
termination
  by (relation "measure (\<lambda>(init, cfg, c, M, mf, nruns, d, runs_left, rest). runs_left)") auto

declare merge_groups.simps [simp del]

text \<open>
  The loop \<^verbatim>\<open>while (nruns > max_arity)\<close> over the passes. After a pass the run list of
  the descriptor is cleared and the descriptor is swapped with the new one.
\<close>

lemma div_ceil_less:
  assumes "1 < f" and "f < n"
  shows "div_ceil n f < n"
proof -
  have "(n + f - 1) div f \<le> (n + n - 2) div f"
    using assms by (intro div_le_mono) simp
  also have "\<dots> \<le> (n + n - 2) div 2"
    using assms by (intro div_le_mono2) simp_all
  also have "\<dots> < n" using assms by simp
  finally show ?thesis by (simp add: div_ceil_def)
qed

function merge_passes ::
  "('a sorted_runs \<Rightarrow> 'a runs_merger \<times> 'a block_manager \<Rightarrow>
      (error + 'a runs_merger \<times> 'a block_manager) option) \<Rightarrow>
   config \<Rightarrow> 'a cmp_type \<Rightarrow> nat \<Rightarrow> nat \<Rightarrow> nat \<Rightarrow> nat \<Rightarrow>
   'a sorted_runs \<Rightarrow> 'a block_manager \<Rightarrow>
   (error + 'a sorted_runs \<times> 'a block_manager) option" where
  "merge_passes init cfg c M merge_factor max_arity nruns d bm =
     (if \<not> merge_factor > 1 then Some (Inl ContractViolation)
      else if \<not> merge_factor \<le> max_arity then Some (Inl ContractViolation)
      else if nruns > max_arity then
        (let new_nruns = div_ceil nruns merge_factor;
             new_runs = \<lparr>runs = replicate new_nruns [], runs_sizes = replicate new_nruns 0,
                         elements = elements d, small_run = []\<rparr>
         in case merge_groups init cfg c M merge_factor nruns d nruns 0 (elements d)
                   new_runs bm of
              None \<Rightarrow> None
            | Some (Inl e) \<Rightarrow> Some (Inl e)
            | Some (Inr (elements_left, new_runs1, bm1)) \<Rightarrow>
                if \<not> elements_left = 0 then Some (Inl ContractViolation)
                else merge_passes init cfg c M merge_factor max_arity new_nruns new_runs1 bm1)
      else Some (Inr (d, bm)))"
  by pat_completeness auto
termination
  by (relation "measure (\<lambda>(init, cfg, c, M, mf, max_arity, nruns, rest). nruns)")
    (auto intro: div_ceil_less)

declare merge_passes.simps [simp del]

text \<open>\<^verbatim>\<open>merge_recursively\<close>.\<close>

definition merge_recursively ::
  "('a sorted_runs \<Rightarrow> 'a runs_merger \<times> 'a block_manager \<Rightarrow>
      (error + 'a runs_merger \<times> 'a block_manager) option) \<Rightarrow>
   config \<Rightarrow> 'a cmp_type \<Rightarrow> 'a runs_merger \<times> 'a block_manager \<Rightarrow>
   (error + 'a runs_merger \<times> 'a block_manager) option" where
  "merge_recursively init cfg c st =
     (let mg = fst st; bm = snd st in
      case m_sruns mg of
        None \<Rightarrow> Some (Inl ContractViolation)
      | Some d \<Rightarrow>
         (let max_arity = max_arity_of cfg (m_memory_to_use mg);
              nruns = length (runs d);
              merge_factor = merge_factor_fn cfg nruns max_arity
          in if \<not> merge_factor > 1 then Some (Inl ContractViolation)
             else if \<not> merge_factor \<le> max_arity then Some (Inl ContractViolation)
             else
               (case merge_passes init cfg c (m_memory_to_use mg) merge_factor max_arity
                       nruns d bm of
                  None \<Rightarrow> None
                | Some (Inl e) \<Rightarrow> Some (Inl e)
                | Some (Inr (d1, bm1)) \<Rightarrow> Some (Inr (mg\<lparr>m_sruns := Some d1\<rparr>, bm1)))))"

text \<open>
  The second part of \<^verbatim>\<open>initialize\<close>, from the assertion that a single pass is feasible
  on: allocate the prefetcher and the loser tree over the consume sequence and fill the
  output buffer for the first time. \<open>input_buffers\<close> is the local variable of that name.
\<close>

definition initialize_single_pass ::
  "config \<Rightarrow> 'a cmp_type \<Rightarrow> nat \<Rightarrow> 'a runs_merger \<times> 'a block_manager \<Rightarrow>
   error + 'a runs_merger \<times> 'a block_manager" where
  "initialize_single_pass cfg c input_buffers st =
     (let mg1 = fst st; bm1 = snd st; min_prefetch_buffers = 2 * disks_number cfg in
      case m_sruns mg1 of
        None \<Rightarrow> Inl ContractViolation
      | Some d \<Rightarrow>
         (let nruns = length (runs d) in
          if \<not> (nruns + min_prefetch_buffers \<le> input_buffers)
          then Inl ContractViolation
          else
            (let mg2 = deallocate_prefetcher mg1;
                 prefetch_seq_size = sum_list (map length (runs d));
                 consume = consume_sequence c d;
                 n_prefetch_buffers = max min_prefetch_buffers (input_buffers - nruns);
                 prefetch_seq = [0..<prefetch_seq_size];
                 pf = block_prefetcher_ctor consume prefetch_seq
                        (min (nruns + n_prefetch_buffers) prefetch_seq_size);
                 (lt, pf1) = loser_tree_ctor bm1 pf nruns;
                 mg3 = mg2\<lparr>m_consume_seq := consume,
                           m_prefetch_seq := prefetch_seq,
                           m_prefetcher := Some pf1, m_losers := Some lt\<rparr>
             in case fill_buffer_block cfg c bm1 mg3 of
                  Inl e \<Rightarrow> Inl e
                | Inr mg4 \<Rightarrow> Inr (mg4, bm1))))"

text \<open>
  The body of \<^verbatim>\<open>initialize\<close>, with the initialization of an inner merger as the
  parameter \<open>init\<close>.
\<close>

definition initialize_body ::
  "('a sorted_runs \<Rightarrow> 'a runs_merger \<times> 'a block_manager \<Rightarrow>
      (error + 'a runs_merger \<times> 'a block_manager) option) \<Rightarrow>
   config \<Rightarrow> 'a cmp_type \<Rightarrow> 'a sorted_runs \<Rightarrow> 'a runs_merger \<times> 'a block_manager \<Rightarrow>
   (error + 'a runs_merger \<times> 'a block_manager) option" where
  "initialize_body init cfg c sruns st =
     (let mg0 = (fst st)\<lparr>m_sruns := Some sruns, m_elements_remaining := elements sruns\<rparr>;
          bm = snd st
      in if merger_empty mg0 then Some (Inr (mg0, bm))
         else if \<not> small_run sruns = []
         then (if \<not> (m_elements_remaining mg0 = length (small_run sruns))
               then Some (Inl ContractViolation)
               else Some (Inr (mg0\<lparr>in_small_run := True, m_current_ptr := 0,
                                    m_current_end := length (small_run sruns)\<rparr>, bm)))
         else
           (let min_prefetch_buffers = 2 * disks_number cfg;
                input_buffers = input_buffers_of cfg (m_memory_to_use mg0);
                nruns = length (runs sruns);
                recursive_merge_buffers = m_memory_to_use mg0 div BlockSize cfg
            in case (if input_buffers < nruns + min_prefetch_buffers
                     then (if recursive_merge_buffers < 2 * min_prefetch_buffers + 1 + 2
                           then Some (Inl InsufficientMemory)
                           else merge_recursively init cfg c (mg0, bm))
                     else Some (Inr (mg0, bm))) of
                 None \<Rightarrow> None
               | Some (Inl e) \<Rightarrow> Some (Inl e)
               | Some (Inr st1) \<Rightarrow> Some (initialize_single_pass cfg c input_buffers st1)))"

text \<open>\<^verbatim>\<open>initialize\<close>, with a bound on the depth of the recursion through inner mergers.\<close>

primrec initialize ::
  "nat \<Rightarrow> config \<Rightarrow> 'a cmp_type \<Rightarrow> 'a sorted_runs \<Rightarrow> 'a runs_merger \<times> 'a block_manager \<Rightarrow>
   (error + 'a runs_merger \<times> 'a block_manager) option" where
  "initialize 0 = (\<lambda>cfg c sruns st. None)"
| "initialize (Suc fuel) = (\<lambda>cfg c sruns st. initialize_body (initialize fuel cfg c) cfg c sruns st)"

section \<open>The stream-mode run creator\<close>

text \<open>
  \<^verbatim>\<open>basic_runs_creator::fetch\<close>: fill the blocks from the input up to \<open>last_idx\<close>.
  The arguments are the input, the elements fetched so far and the two indices; the
  result holds the elements fetched, the index reached and the rest of the input.
\<close>

fun fetch :: "'a list \<Rightarrow> 'a list \<Rightarrow> nat \<Rightarrow> nat \<Rightarrow> 'a list \<times> nat \<times> 'a list" where
  "fetch [] blocks curr_idx last_idx = (blocks, curr_idx, [])"
| "fetch (x # inp) blocks curr_idx last_idx =
     (if curr_idx \<noteq> last_idx then fetch inp (blocks @ [x]) (curr_idx + 1) last_idx
      else (blocks, curr_idx, x # inp))"

text \<open>
  The general case of \<^verbatim>\<open>basic_runs_creator::compute_result\<close>, the loop
  \<^verbatim>\<open>while (!m_input.empty())\<close>; \<open>None\<close> is the case in which the loop does not end.
\<close>

partial_function (option) create_runs_loop ::
  "config \<Rightarrow> 'a cmp_type \<Rightarrow> nat \<Rightarrow> 'a list \<times> 'a sorted_runs \<times> 'a block_manager \<Rightarrow>
   ('a list \<times> 'a sorted_runs \<times> 'a block_manager) option" where
  "create_runs_loop cfg c el_in_run st =
     (let inp = fst st; res = fst (snd st); bm = snd (snd st) in
      if inp \<noteq> [] then
        (let (blocks1, blocks1_length, inp1) = fetch inp [] 0 el_in_run;
             sorted = sort_run c blocks1;
             cur_run_size = div_ceil blocks1_length (block_elems cfg);
             data = sorted @ replicate (cur_run_size * block_elems cfg - blocks1_length)
                                (max_value c);
             (run, bm1) = write_run cfg data cur_run_size bm
         in create_runs_loop cfg c el_in_run (inp1, add_run run blocks1_length res, bm1))
      else Some st)"

declare create_runs_loop.simps [code]

text \<open>
  \<^verbatim>\<open>basic_runs_creator::compute_result\<close>, in the build without
  \<^verbatim>\<open>STXXL_SMALL_INPUT_PSORT_OPT\<close>.
\<close>

definition basic_compute_result ::
  "config \<Rightarrow> 'a cmp_type \<Rightarrow> 'a basic_runs_creator \<times> 'a block_manager \<Rightarrow>
   (error + 'a basic_runs_creator \<times> 'a block_manager) option" where
  "basic_compute_result cfg c st =
     (let bc = fst st; bm = snd st;
          m2 = m_memsize bc div 2;
          el_in_run = m2 * block_elems cfg;
          (blocks1, blocks1_length, inp1) = fetch (m_input bc) [] 0 el_in_run;
          sorted1 = sort_run c blocks1
      in if blocks1_length \<le> block_elems cfg \<and> inp1 = []
         then (if \<not> small_run (bc_result bc) = [] then Some (Inl ContractViolation)
               else Some (Inr (bc\<lparr>m_input := inp1,
                                  bc_result := (bc_result bc)
                                     \<lparr>small_run := take blocks1_length sorted1,
                                      elements := blocks1_length\<rparr>\<rparr>, bm)))
         else
           (let cur_run_size = div_ceil blocks1_length (block_elems cfg);
                data1 = sorted1 @ replicate (cur_run_size * block_elems cfg - blocks1_length)
                                    (max_value c);
                (run, bm1) = write_run cfg data1 cur_run_size bm;
                res1 = (bc_result bc)\<lparr>runs := runs (bc_result bc) @ [run],
                                       runs_sizes := runs_sizes (bc_result bc) @ [blocks1_length],
                                       elements := elements (bc_result bc) + blocks1_length\<rparr>
            in if inp1 = [] then Some (Inr (bc\<lparr>m_input := inp1, bc_result := res1\<rparr>, bm1))
               else
                 (let (blocks2, blocks2_length0, inp2) = fetch inp1 [] 0 el_in_run in
                  if inp2 = [] then
                    (let blocks2_length = blocks2_length0 + el_in_run;
                         sorted12 = sort_run c (take blocks2_length (data1 @ blocks2));
                         bm2 = delete_blocks (map bid run) bm1;
                         cur_run_size2 = div_ceil blocks2_length (block_elems cfg);
                         data2 = sorted12 @
                           replicate (cur_run_size2 * block_elems cfg - blocks2_length)
                             (max_value c);
                         (run2, bm3) = write_run cfg data2 cur_run_size2 bm2
                     in if \<not> cur_run_size2 > m2 then Some (Inl ContractViolation)
                        else Some (Inr (bc\<lparr>m_input := inp2,
                               bc_result := res1\<lparr>runs := (runs res1)[0 := run2],
                                                  runs_sizes := (runs_sizes res1)[0 := blocks2_length],
                                                  elements := blocks2_length\<rparr>\<rparr>, bm3)))
                  else
                    (let sorted2 = sort_run c blocks2;
                         cur_run_size2 = div_ceil blocks2_length0 (block_elems cfg);
                         (run2, bm2) = write_run cfg sorted2 cur_run_size2 bm1
                     in if \<not> (blocks2_length0 mod el_in_run = 0)
                        then Some (Inl ContractViolation)
                        else
                          (case create_runs_loop cfg c el_in_run
                                  (inp2, add_run run2 blocks2_length0 res1, bm2) of
                             None \<Rightarrow> None
                           | Some (inp3, res3, bm3) \<Rightarrow>
                               Some (Inr (bc\<lparr>m_input := inp3, bc_result := res3\<rparr>, bm3)))))))"

text \<open>\<^verbatim>\<open>basic_runs_creator::result\<close>.\<close>

definition basic_result ::
  "config \<Rightarrow> 'a cmp_type \<Rightarrow> 'a basic_runs_creator \<times> 'a block_manager \<Rightarrow>
   (error + 'a basic_runs_creator \<times> 'a block_manager) option" where
  "basic_result cfg c st =
     (if \<not> bc_result_computed (fst st)
      then (case basic_compute_result cfg c st of
              None \<Rightarrow> None
            | Some (Inl e) \<Rightarrow> Some (Inl e)
            | Some (Inr (bc, bm)) \<Rightarrow> Some (Inr (bc\<lparr>bc_result_computed := True\<rparr>, bm)))
      else Some (Inr st))"

section \<open>The sorter container\<close>

datatype sorter_state = STATE_INPUT | STATE_OUTPUT

text \<open>
  The creator and the merger share the descriptor through a counted pointer. In the
  model the merger holds the descriptor's value in \<open>m_sruns\<close>, and an operation that lets
  the merger change it (\<^verbatim>\<open>initialize\<close>, through \<^verbatim>\<open>merge_recursively\<close>) stores the changed
  value back into the creator's \<open>m_result\<close>.
\<close>

record 'a sorter =
  m_state :: sorter_state
  m_runs_creator :: "'a runs_creator"
  m_runs_merger :: "'a runs_merger"

definition sorter_ctor ::
  "config \<Rightarrow> 'a cmp_type \<Rightarrow> nat \<Rightarrow> nat \<Rightarrow> error + 'a sorter" where
  "sorter_ctor cfg c creator_memory_to_use merger_memory_to_use =
     (case runs_creator_ctor cfg c creator_memory_to_use of
        Inl e \<Rightarrow> Inl e
      | Inr cr \<Rightarrow>
          (case basic_runs_merger_ctor c merger_memory_to_use of
             Inl e \<Rightarrow> Inl e
           | Inr mg \<Rightarrow> Inr \<lparr>m_state = STATE_INPUT, m_runs_creator = cr, m_runs_merger = mg\<rparr>))"

definition sorter_clear ::
  "'a sorter \<times> 'a block_manager \<Rightarrow> 'a sorter \<times> 'a block_manager" where
  "sorter_clear st =
     (let s = fst st;
          mg = (if m_state s = STATE_OUTPUT then merger_deallocate (m_runs_merger s)
                else m_runs_merger s);
          (cr, bm) = creator_allocate (m_runs_creator s, snd st)
      in (s\<lparr>m_state := STATE_INPUT, m_runs_creator := cr, m_runs_merger := mg\<rparr>, bm))"

definition sorter_push ::
  "config \<Rightarrow> 'a cmp_type \<Rightarrow> 'a \<Rightarrow> 'a sorter \<times> 'a block_manager \<Rightarrow>
   (error + 'a sorter \<times> 'a block_manager) option" where
  "sorter_push cfg c val st =
     (let s = fst st in
      if \<not> m_state s = STATE_INPUT then Some (Inl ContractViolation)
      else (case push cfg c val (m_runs_creator s, snd st) of
              None \<Rightarrow> None
            | Some (Inl e) \<Rightarrow> Some (Inl e)
            | Some (Inr (cr, bm)) \<Rightarrow> Some (Inr (s\<lparr>m_runs_creator := cr\<rparr>, bm))))"

definition sorter_finish ::
  "config \<Rightarrow> 'a cmp_type \<Rightarrow> 'a sorter \<times> 'a block_manager \<Rightarrow> 'a sorter \<times> 'a block_manager" where
  "sorter_finish cfg c st =
     (let s = fst st;
          mg = (if m_state s = STATE_OUTPUT then merger_deallocate (m_runs_merger s)
                else m_runs_merger s);
          (cr, bm) = creator_deallocate cfg c (m_runs_creator s, snd st)
      in (s\<lparr>m_runs_creator := cr, m_runs_merger := mg\<rparr>, bm))"

definition sorter_finish_clear ::
  "config \<Rightarrow> 'a cmp_type \<Rightarrow> 'a sorter \<times> 'a block_manager \<Rightarrow> 'a sorter \<times> 'a block_manager" where
  "sorter_finish_clear cfg c st =
     (let s = fst st;
          (mg, cr1, bm1) =
            (if m_state s = STATE_OUTPUT
             then (let (cr0, bm0) = creator_result cfg c (m_runs_creator s, snd st);
                       (r, bm) = sorted_runs_clear (m_result cr0) bm0
                   in (merger_deallocate (m_runs_merger s), cr0\<lparr>m_result := r\<rparr>, bm))
             else (m_runs_merger s, m_runs_creator s, snd st));
          (cr, bm) = creator_deallocate cfg c (cr1, bm1)
      in (s\<lparr>m_runs_creator := cr, m_runs_merger := mg\<rparr>, bm))"

definition share_result :: "'a runs_merger \<Rightarrow> 'a runs_creator \<Rightarrow> 'a runs_creator" where
  "share_result mg cr = (case m_sruns mg of None \<Rightarrow> cr | Some d \<Rightarrow> cr\<lparr>m_result := d\<rparr>)"

definition sorter_sort ::
  "nat \<Rightarrow> config \<Rightarrow> 'a cmp_type \<Rightarrow> 'a sorter \<times> 'a block_manager \<Rightarrow>
   (error + 'a sorter \<times> 'a block_manager) option" where
  "sorter_sort fuel cfg c st =
     (let s = fst st;
          mg = (if m_state s = STATE_OUTPUT then merger_deallocate (m_runs_merger s)
                else m_runs_merger s);
          (cr, bm) = creator_deallocate cfg c (m_runs_creator s, snd st)
      in case initialize fuel cfg c (m_result cr) (mg, bm) of
           None \<Rightarrow> None
         | Some (Inl e) \<Rightarrow> Some (Inl e)
         | Some (Inr (mg1, bm1)) \<Rightarrow>
             Some (Inr (s\<lparr>m_state := STATE_OUTPUT, m_runs_creator := share_result mg1 cr,
                          m_runs_merger := mg1\<rparr>, bm1)))"

definition sorter_sort_reuse ::
  "nat \<Rightarrow> config \<Rightarrow> 'a cmp_type \<Rightarrow> 'a sorter \<times> 'a block_manager \<Rightarrow>
   (error + 'a sorter \<times> 'a block_manager) option" where
  "sorter_sort_reuse fuel cfg c st =
     (let s = fst st in
      if \<not> m_state s = STATE_INPUT then Some (Inl ContractViolation)
      else
        (let (cr, bm) = creator_result cfg c (m_runs_creator s, snd st)
         in case initialize fuel cfg c (m_result cr) (m_runs_merger s, bm) of
              None \<Rightarrow> None
            | Some (Inl e) \<Rightarrow> Some (Inl e)
            | Some (Inr (mg1, bm1)) \<Rightarrow>
                Some (Inr (s\<lparr>m_state := STATE_OUTPUT, m_runs_creator := share_result mg1 cr,
                             m_runs_merger := mg1\<rparr>, bm1))))"

definition sorter_rewind ::
  "nat \<Rightarrow> config \<Rightarrow> 'a cmp_type \<Rightarrow> 'a sorter \<times> 'a block_manager \<Rightarrow>
   (error + 'a sorter \<times> 'a block_manager) option" where
  "sorter_rewind fuel cfg c st =
     (let s = fst st in
      if \<not> m_state s = STATE_OUTPUT then Some (Inl ContractViolation)
      else sorter_sort fuel cfg c
             (s\<lparr>m_runs_merger := merger_deallocate (m_runs_merger s), m_state := STATE_INPUT\<rparr>,
              snd st))"

definition sorter_size :: "'a sorter \<Rightarrow> nat" where
  "sorter_size s =
     (if m_state s = STATE_INPUT then creator_size (m_runs_creator s)
      else merger_size (m_runs_merger s))"

definition sorter_empty :: "'a sorter \<Rightarrow> error + bool" where
  "sorter_empty s =
     (if \<not> m_state s = STATE_OUTPUT then Inl ContractViolation
      else Inr (merger_empty (m_runs_merger s)))"

definition sorter_deref :: "'a sorter \<Rightarrow> error + 'a" where
  "sorter_deref s =
     (if \<not> m_state s = STATE_OUTPUT then Inl ContractViolation
      else merger_deref (m_runs_merger s))"

definition sorter_inc ::
  "config \<Rightarrow> 'a cmp_type \<Rightarrow> 'a block_manager \<Rightarrow> 'a sorter \<Rightarrow> error + 'a sorter" where
  "sorter_inc cfg c bm s =
     (if \<not> m_state s = STATE_OUTPUT then Inl ContractViolation
      else (case merger_inc cfg c bm (m_runs_merger s) of
              Inl e \<Rightarrow> Inl e
            | Inr mg \<Rightarrow> Inr (s\<lparr>m_runs_merger := mg\<rparr>)))"

definition sorter_next_output_would_block :: "'a sorter \<Rightarrow> bool" where
  "sorter_next_output_would_block s = next_output_would_block (m_runs_merger s)"

text \<open>Pushing a sequence of elements, one \<^verbatim>\<open>push\<close> after the other.\<close>

fun push_all ::
  "config \<Rightarrow> 'a cmp_type \<Rightarrow> 'a list \<Rightarrow> 'a sorter \<times> 'a block_manager \<Rightarrow>
   (error + 'a sorter \<times> 'a block_manager) option" where
  "push_all cfg c [] st = Some (Inr st)"
| "push_all cfg c (x # xs) st =
     (case sorter_push cfg c x st of
        None \<Rightarrow> None
      | Some (Inl e) \<Rightarrow> Some (Inl e)
      | Some (Inr st1) \<Rightarrow> push_all cfg c xs st1)"

text \<open>
  Reading the output stream to its end: while the sorter is not \<^verbatim>\<open>empty()\<close>, take
  \<^verbatim>\<open>operator*()\<close> and advance with \<^verbatim>\<open>operator++()\<close>. Every advance lowers the number of
  remaining elements, which is why the loop ends.
\<close>

lemma sorter_inc_remaining:
  "sorter_inc cfg c bm s = Inr s' \<Longrightarrow>
   m_elements_remaining (m_runs_merger s') < m_elements_remaining (m_runs_merger s)"
  by (auto simp add: sorter_inc_def dest!: merger_inc_remaining split: if_splits sum.splits)

function sorter_drain ::
  "config \<Rightarrow> 'a cmp_type \<Rightarrow> 'a block_manager \<Rightarrow> 'a sorter \<Rightarrow> error + ('a list \<times> 'a sorter)" where
  "sorter_drain cfg c bm s =
     (case sorter_empty s of
        Inl e \<Rightarrow> Inl e
      | Inr True \<Rightarrow> Inr ([], s)
      | Inr False \<Rightarrow>
          (case sorter_deref s of
             Inl e \<Rightarrow> Inl e
           | Inr x \<Rightarrow>
               (case sorter_inc cfg c bm s of
                  Inl e \<Rightarrow> Inl e
                | Inr s1 \<Rightarrow>
                    (case sorter_drain cfg c bm s1 of
                       Inl e \<Rightarrow> Inl e
                     | Inr (xs, s2) \<Rightarrow> Inr (x # xs, s2)))))"
  by pat_completeness auto
termination
  by (relation "measure (\<lambda>(cfg, c, bm, s). m_elements_remaining (m_runs_merger s))")
    (auto dest: sorter_inc_remaining)

declare sorter_drain.simps [simp del]

text \<open>
  A sorter that is constructed, takes a sequence of pushes and is then sorted, starting
  from the block manager state \<open>bm0\<close>.
\<close>

definition pushed_sorter ::
  "config \<Rightarrow> 'a cmp_type \<Rightarrow> nat \<Rightarrow> nat \<Rightarrow> 'a list \<Rightarrow> 'a block_manager \<Rightarrow>
   (error + 'a sorter \<times> 'a block_manager) option" where
  "pushed_sorter cfg c creator_memory_to_use merger_memory_to_use xs bm0 =
     (case sorter_ctor cfg c creator_memory_to_use merger_memory_to_use of
        Inl e \<Rightarrow> Some (Inl e)
      | Inr s \<Rightarrow> push_all cfg c xs (s, bm0))"

definition sorted_sorter ::
  "nat \<Rightarrow> config \<Rightarrow> 'a cmp_type \<Rightarrow> nat \<Rightarrow> nat \<Rightarrow> 'a list \<Rightarrow> 'a block_manager \<Rightarrow>
   (error + 'a sorter \<times> 'a block_manager) option" where
  "sorted_sorter fuel cfg c creator_memory_to_use merger_memory_to_use xs bm0 =
     (case pushed_sorter cfg c creator_memory_to_use merger_memory_to_use xs bm0 of
        None \<Rightarrow> None
      | Some (Inl e) \<Rightarrow> Some (Inl e)
      | Some (Inr st) \<Rightarrow> sorter_sort fuel cfg c st)"

section \<open>The sort pipeline\<close>

text \<open>
  \<^verbatim>\<open>stream::sort\<close>: a stream-mode creator over the input and a merger that is
  initialized with the creator's result; the sentinel validation ends the constructor.
\<close>

record 'a stream_sort =
  creator :: "'a basic_runs_creator"
  merger :: "'a runs_merger"

definition stream_sort_ctor ::
  "nat \<Rightarrow> config \<Rightarrow> 'a cmp_type \<Rightarrow> 'a list \<Rightarrow> nat \<Rightarrow> nat \<Rightarrow> 'a block_manager \<Rightarrow>
   (error + 'a stream_sort \<times> 'a block_manager) option" where
  "stream_sort_ctor fuel cfg c inp creator_memory_to_use merger_memory_to_use bm0 =
     (case basic_runs_creator_ctor cfg c inp creator_memory_to_use of
        Inl e \<Rightarrow> Some (Inl e)
      | Inr bc0 \<Rightarrow>
         (case basic_result cfg c (bc0, bm0) of
            None \<Rightarrow> None
          | Some (Inl e) \<Rightarrow> Some (Inl e)
          | Some (Inr (bc1, bm1)) \<Rightarrow>
             (case basic_runs_merger_ctor c merger_memory_to_use of
                Inl e \<Rightarrow> Some (Inl e)
              | Inr mg0 \<Rightarrow>
                 (case initialize fuel cfg c (bc_result bc1) (mg0, bm1) of
                    None \<Rightarrow> None
                  | Some (Inl e) \<Rightarrow> Some (Inl e)
                  | Some (Inr (mg1, bm2)) \<Rightarrow>
                     (case verify_sentinel_strict_weak_ordering c of
                        Inl e \<Rightarrow> Some (Inl e)
                      | Inr u \<Rightarrow>
                          Some (Inr (\<lparr>creator =
                                       (case m_sruns mg1 of
                                          None \<Rightarrow> bc1
                                        | Some d \<Rightarrow> bc1\<lparr>bc_result := d\<rparr>),
                                     merger = mg1\<rparr>, bm2)))))))"

section \<open>An example instance\<close>

text \<open>
  Natural numbers under \<open><\<close> with the sentinels 0 and 99, blocks of four elements
  (16 bytes), one disk; the merge factor is the largest arity the memory allows, capped
  by the number of runs. \<open>no_cmp\<close> is a comparator that orders nothing.
\<close>

definition nat_cmp :: "nat cmp_type" where
  "nat_cmp = \<lparr>cmp_less = (<), min_value = 0, max_value = 99\<rparr>"

definition no_cmp :: "nat cmp_type" where
  "no_cmp = \<lparr>cmp_less = (\<lambda>a b. False), min_value = 0, max_value = 99\<rparr>"

definition cfg4 :: config where
  "cfg4 = \<lparr>BlockSize = 16, block_elems = 4, disks_number = 1, memory_usage_factor = 1,
           merge_factor_fn = (\<lambda>n m. min n m)\<rparr>"





section \<open>Predicates of the proofs\<close>


section \<open>Properties of construction and of the cursor comparator\<close>

lemma verify_sentinel_iff:
  "verify_sentinel_strict_weak_ordering c = Inr () \<longleftrightarrow> sentinels_ok c"
  by (simp add: verify_sentinel_strict_weak_ordering_def sentinels_ok_def)

lemma verify_sentinel_fails:
  "\<not> sentinels_ok c \<Longrightarrow> verify_sentinel_strict_weak_ordering c = Inl ContractViolation"
  by (auto simp add: verify_sentinel_strict_weak_ordering_def sentinels_ok_def)

lemma verify_sentinel_passes:
  "sentinels_ok c \<Longrightarrow> verify_sentinel_strict_weak_ordering c = Inr ()"
  by (simp add: verify_sentinel_iff)

text \<open>
  C9. Every creator and the merger validate the sentinels when they are constructed:
  with a comparator that violates one of the four conditions the constructor stops in
  the failed assertion, and a constructor that returns an object has seen all four hold.
\<close>

theorem constructors_validate_sentinels:
  "(\<not> sentinels_ok c \<longrightarrow>
      basic_runs_creator_ctor cfg c inp M = Inl ContractViolation \<and>
      runs_creator_ctor cfg c M = Inl ContractViolation \<and>
      sorted_sequences_creator_ctor cfg c M = Inl ContractViolation \<and>
      basic_runs_merger_ctor c M = Inl ContractViolation) \<and>
   ((\<exists>s. basic_runs_creator_ctor cfg c inp M = Inr s) \<longrightarrow> sentinels_ok c) \<and>
   ((\<exists>s. runs_creator_ctor cfg c M = Inr s) \<longrightarrow> sentinels_ok c) \<and>
   ((\<exists>s. sorted_sequences_creator_ctor cfg c M = Inr s) \<longrightarrow> sentinels_ok c) \<and>
   ((\<exists>s. basic_runs_merger_ctor c M = Inr s) \<longrightarrow> sentinels_ok c)"
proof -
  have fails: "\<not> sentinels_ok c \<Longrightarrow>
      basic_runs_creator_ctor cfg c inp M = Inl ContractViolation \<and>
      runs_creator_ctor cfg c M = Inl ContractViolation \<and>
      sorted_sequences_creator_ctor cfg c M = Inl ContractViolation \<and>
      basic_runs_merger_ctor c M = Inl ContractViolation"
    by (simp add: verify_sentinel_fails basic_runs_creator_ctor_def runs_creator_ctor_def
        sorted_sequences_creator_ctor_def basic_runs_merger_ctor_def Let_def)
  show ?thesis
  proof (cases "sentinels_ok c")
    case True
    then show ?thesis by simp
  next
    case False
    then show ?thesis using fails by simp
  qed
qed

theorem constructors_validate_sentinels_witness:
  "\<not> sentinels_ok no_cmp \<and>
   basic_runs_creator_ctor cfg4 no_cmp [7, 3, 5] 64 = Inl ContractViolation \<and>
   runs_creator_ctor cfg4 no_cmp 64 = Inl ContractViolation \<and>
   sorted_sequences_creator_ctor cfg4 no_cmp 64 = Inl ContractViolation \<and>
   basic_runs_merger_ctor no_cmp 64 = Inl ContractViolation \<and>
   (\<exists>s. runs_creator_ctor cfg4 nat_cmp 64 = Inr s) \<and> sentinels_ok nat_cmp"
proof -
  have bad: "\<not> sentinels_ok no_cmp" by (simp add: sentinels_ok_def no_cmp_def)
  have ok: "\<exists>s. runs_creator_ctor cfg4 nat_cmp 64 = Inr s"
    by (simp add: runs_creator_ctor_def verify_sentinel_strict_weak_ordering_def nat_cmp_def
        cfg4_def Let_def)
  show ?thesis
    using bad ok constructors_validate_sentinels [of no_cmp cfg4 "[7, 3, 5]" 64]
      constructors_validate_sentinels [of nat_cmp cfg4 "[]" 64]
    by blast
qed

text \<open>
  C3. With a comparator that passes the sentinel validation, the push-mode and the
  stream-mode creator raise InsufficientMemory exactly when
  \<open>2 * BlockSize * memory_usage_factor > M\<close>, and construction succeeds otherwise.
\<close>

lemma memsize_ge_2:
  assumes "0 < (bs::nat)" "0 < f" "2 * bs * f \<le> M"
  shows "2 \<le> M div bs div f"
proof -
  have "(2 * f) * bs \<le> M" using assms(3) by (simp add: mult.commute mult.left_commute)
  then have "2 * f \<le> M div bs" using assms(1) by (simp add: less_eq_div_iff_mult_less_eq)
  then show ?thesis using assms(2) by (simp add: less_eq_div_iff_mult_less_eq)
qed

theorem creator_insufficient_memory_iff:
  assumes "sentinels_ok c" and "0 < BlockSize cfg" and "0 < memory_usage_factor cfg"
  shows "(runs_creator_ctor cfg c M = Inl InsufficientMemory \<longleftrightarrow>
            2 * BlockSize cfg * memory_usage_factor cfg > M) \<and>
         (basic_runs_creator_ctor cfg c inp M = Inl InsufficientMemory \<longleftrightarrow>
            2 * BlockSize cfg * memory_usage_factor cfg > M) \<and>
         (2 * BlockSize cfg * memory_usage_factor cfg \<le> M \<longrightarrow>
            (\<exists>s. runs_creator_ctor cfg c M = Inr s) \<and>
            (\<exists>s. basic_runs_creator_ctor cfg c inp M = Inr s))"
proof -
  have v: "verify_sentinel_strict_weak_ordering c = Inr ()"
    using assms(1) by (rule verify_sentinel_passes)
  have big: "2 * BlockSize cfg * memory_usage_factor cfg \<le> M \<Longrightarrow>
      2 \<le> M div BlockSize cfg div memory_usage_factor cfg"
    using memsize_ge_2 [OF assms(2) assms(3)] by simp
  have big2: "2 * BlockSize cfg * memory_usage_factor cfg \<le> M \<Longrightarrow>
      0 < M div BlockSize cfg div memory_usage_factor cfg div 2"
    using big by (simp add: less_eq_div_iff_mult_less_eq)
  have big1: "2 * BlockSize cfg * memory_usage_factor cfg \<le> M \<Longrightarrow>
      0 < M div BlockSize cfg div memory_usage_factor cfg"
    using big by fastforce
  show ?thesis
    using big1 big2
    by (auto simp add: v runs_creator_ctor_def basic_runs_creator_ctor_def Let_def)
qed

theorem creator_insufficient_memory_iff_witness:
  "sentinels_ok nat_cmp \<and> 0 < BlockSize cfg4 \<and> 0 < memory_usage_factor cfg4 \<and>
   runs_creator_ctor cfg4 nat_cmp 31 = Inl InsufficientMemory \<and>
   basic_runs_creator_ctor cfg4 nat_cmp [7, 3, 5] 31 = Inl InsufficientMemory \<and>
   (\<exists>s. runs_creator_ctor cfg4 nat_cmp 32 = Inr s) \<and>
   (\<exists>s. basic_runs_creator_ctor cfg4 nat_cmp [7, 3, 5] 32 = Inr s)"
proof -
  have h1: "sentinels_ok nat_cmp" by (simp add: sentinels_ok_def nat_cmp_def)
  have h2: "0 < BlockSize cfg4" by (simp add: cfg4_def)
  have h3: "0 < memory_usage_factor cfg4" by (simp add: cfg4_def)
  have small: "31 < 2 * BlockSize cfg4 * memory_usage_factor cfg4" by (simp add: cfg4_def)
  have large: "2 * BlockSize cfg4 * memory_usage_factor cfg4 \<le> 32" by (simp add: cfg4_def)
  show ?thesis
    using h1 h2 h3 small large
      creator_insufficient_memory_iff [OF h1 h2 h3, of 31 "[7, 3, 5]"]
      creator_insufficient_memory_iff [OF h1 h2 h3, of 32 "[7, 3, 5]"]
    by blast
qed

text \<open>
  C10. \<open>run_cursor2_cmp\<close> answers true whenever the right cursor is empty, also for an
  empty left cursor and for a cursor compared with itself; it answers false for an empty
  left cursor and a non-empty right one; on non-empty cursors it is the element
  comparison, so it is irreflexive there when the element order is.
\<close>

theorem run_cursor2_cmp_sentinel_emulation:
  "(cursor_empty cfg b \<longrightarrow> run_cursor2_cmp cfg c a b) \<and>
   (cursor_empty cfg a \<longrightarrow> run_cursor2_cmp cfg c a a) \<and>
   (cursor_empty cfg a \<and> \<not> cursor_empty cfg b \<longrightarrow> \<not> run_cursor2_cmp cfg c a b) \<and>
   (\<not> cursor_empty cfg a \<and> \<not> cursor_empty cfg b \<longrightarrow>
      run_cursor2_cmp cfg c a b = cmp_less c (current a) (current b)) \<and>
   (\<not> cursor_empty cfg a \<and> \<not> cmp_less c (current a) (current a) \<longrightarrow>
      \<not> run_cursor2_cmp cfg c a a) \<and>
   (\<not> cursor_empty cfg a \<and> cursor_empty cfg b \<longrightarrow>
      run_cursor2_cmp cfg c a b \<and> \<not> run_cursor2_cmp cfg c b a)"
  by (simp add: run_cursor2_cmp_def)

theorem run_cursor2_cmp_sentinel_emulation_witness:
  "cursor_empty cfg4 \<lparr>pos = 4, buffer = [1, 2, 3, 4::nat]\<rparr> \<and>
   \<not> cursor_empty cfg4 \<lparr>pos = 1, buffer = [5, 6, 7, 8::nat]\<rparr> \<and>
   run_cursor2_cmp cfg4 nat_cmp \<lparr>pos = 4, buffer = [1, 2, 3, 4]\<rparr>
     \<lparr>pos = 4, buffer = [1, 2, 3, 4]\<rparr> \<and>
   run_cursor2_cmp cfg4 nat_cmp \<lparr>pos = 1, buffer = [5, 6, 7, 8]\<rparr>
     \<lparr>pos = 4, buffer = [1, 2, 3, 4]\<rparr> \<and>
   \<not> run_cursor2_cmp cfg4 nat_cmp \<lparr>pos = 4, buffer = [1, 2, 3, 4]\<rparr>
     \<lparr>pos = 1, buffer = [5, 6, 7, 8]\<rparr> \<and>
   \<not> run_cursor2_cmp cfg4 nat_cmp \<lparr>pos = 1, buffer = [5, 6, 7, 8]\<rparr>
     \<lparr>pos = 1, buffer = [5, 6, 7, 8]\<rparr>"
proof -
  have e: "cursor_empty cfg4 \<lparr>pos = 4, buffer = [1, 2, 3, 4::nat]\<rparr>"
    by (simp add: cursor_empty_def cfg4_def)
  have n: "\<not> cursor_empty cfg4 \<lparr>pos = 1, buffer = [5, 6, 7, 8::nat]\<rparr>"
    by (simp add: cursor_empty_def cfg4_def)
  have i: "\<not> cmp_less nat_cmp (current \<lparr>pos = 1, buffer = [5, 6, 7, 8]\<rparr>)
             (current \<lparr>pos = 1, buffer = [5, 6, 7, 8]\<rparr>)"
    by (simp add: nat_cmp_def)
  show ?thesis
    using e n i
      run_cursor2_cmp_sentinel_emulation [of cfg4 "\<lparr>pos = 4, buffer = [1, 2, 3, 4]\<rparr>"
        nat_cmp "\<lparr>pos = 4, buffer = [1, 2, 3, 4]\<rparr>"]
      run_cursor2_cmp_sentinel_emulation [of cfg4 "\<lparr>pos = 4, buffer = [1, 2, 3, 4]\<rparr>"
        nat_cmp "\<lparr>pos = 1, buffer = [5, 6, 7, 8]\<rparr>"]
      run_cursor2_cmp_sentinel_emulation [of cfg4 "\<lparr>pos = 1, buffer = [5, 6, 7, 8]\<rparr>"
        nat_cmp "\<lparr>pos = 4, buffer = [1, 2, 3, 4]\<rparr>"]
      run_cursor2_cmp_sentinel_emulation [of cfg4 "\<lparr>pos = 1, buffer = [5, 6, 7, 8]\<rparr>"
        nat_cmp "\<lparr>pos = 1, buffer = [5, 6, 7, 8]\<rparr>"]
    by blast
qed

section \<open>Refilling and clearing\<close>

lemma merger_inc_eq:
  "merger_inc cfg c bm mg =
     (if merger_empty mg \<or> m_current_ptr mg = m_current_end mg then Inl ContractViolation
      else if advance_refills mg
      then fill_buffer_block cfg c bm
             (mg\<lparr>m_elements_remaining := m_elements_remaining mg - 1,
                 m_current_ptr := m_current_ptr mg + 1\<rparr>)
      else Inr (mg\<lparr>m_elements_remaining := m_elements_remaining mg - 1,
                    m_current_ptr := m_current_ptr mg + 1\<rparr>))"
  by (simp add: merger_inc_def advance_refills_def merger_empty_def Let_def)

text \<open>
  C7. One element is pushed and the sorter is sorted. The sorter is not empty and
  \<^verbatim>\<open>next_output_would_block()\<close> answers true, but the next \<^verbatim>\<open>operator++\<close> does not refill
  the output buffer: it only steps over the last element, and the merger is empty then.
\<close>

theorem next_output_would_block_at_last_element:
  "case sorted_sorter 1 cfg4 nat_cmp 64 64 [7] new_block_manager of
     Some (Inr (s, bm)) \<Rightarrow>
       sorter_empty s = Inr False \<and> sorter_next_output_would_block s \<and>
       \<not> advance_refills (m_runs_merger s) \<and>
       (case sorter_inc cfg4 nat_cmp bm s of
          Inr s1 \<Rightarrow>
            m_runs_merger s1 =
              (m_runs_merger s)\<lparr>m_elements_remaining := 0, m_current_ptr := 1\<rparr>
        | Inl e \<Rightarrow> False)
   | _ \<Rightarrow> False"
  by code_simp

text \<open>
  C8. In the input state \<^verbatim>\<open>finish_clear()\<close> finishes the result and keeps it: after
  three pushes the descriptor holds the three elements in its small-run buffer, and
  after five pushes it holds a run of two blocks, whose ids were taken from the block
  manager by \<^verbatim>\<open>finish_clear()\<close> itself. In the output state the descriptor is cleared.
\<close>

theorem finish_clear_keeps_result_in_input_state:
  "(case pushed_sorter cfg4 nat_cmp 64 64 [7, 3, 5] new_block_manager of
      Some (Inr st) \<Rightarrow>
        m_state (fst st) = STATE_INPUT \<and>
        small_run (m_result (m_runs_creator (fst (sorter_finish_clear cfg4 nat_cmp st))))
          = [3, 5, 7] \<and>
        elements (m_result (m_runs_creator (fst (sorter_finish_clear cfg4 nat_cmp st)))) = 3
    | _ \<Rightarrow> False) \<and>
   (case pushed_sorter cfg4 nat_cmp 64 64 [7, 3, 5, 1, 9] new_block_manager of
      Some (Inr st) \<Rightarrow>
        m_state (fst st) = STATE_INPUT \<and> next_bid (snd st) = 0 \<and>
        map (map bid) (runs (m_result (m_runs_creator
          (fst (sorter_finish_clear cfg4 nat_cmp st))))) = [[0, 1]] \<and>
        elements (m_result (m_runs_creator (fst (sorter_finish_clear cfg4 nat_cmp st)))) = 5 \<and>
        next_bid (snd (sorter_finish_clear cfg4 nat_cmp st)) = 2
    | _ \<Rightarrow> False) \<and>
   (case sorted_sorter 1 cfg4 nat_cmp 64 64 [7, 3, 5] new_block_manager of
      Some (Inr st) \<Rightarrow>
        m_state (fst st) = STATE_OUTPUT \<and>
        m_result (m_runs_creator (fst (sorter_finish_clear cfg4 nat_cmp st)))
          = empty_sorted_runs
    | _ \<Rightarrow> False)"
  by code_simp

section \<open>Sorting with a strict weak order\<close>

lemma swo_irrefl: "strict_weak_order lt \<Longrightarrow> \<not> lt x x"
  by (simp add: strict_weak_order_def)

lemma swo_trans: "strict_weak_order lt \<Longrightarrow> lt x y \<Longrightarrow> lt y z \<Longrightarrow> lt x z"
  unfolding strict_weak_order_def by blast

lemma swo_asym: "strict_weak_order lt \<Longrightarrow> lt x y \<Longrightarrow> \<not> lt y x"
  unfolding strict_weak_order_def by blast

lemma swo_le_trans: "strict_weak_order lt \<Longrightarrow> \<not> lt y x \<Longrightarrow> \<not> lt z y \<Longrightarrow> \<not> lt z x"
  unfolding strict_weak_order_def by blast

lemma swo_lt_le_trans: "strict_weak_order lt \<Longrightarrow> lt x y \<Longrightarrow> \<not> lt z y \<Longrightarrow> lt x z"
  unfolding strict_weak_order_def by blast

lemma swo_le_lt_trans: "strict_weak_order lt \<Longrightarrow> \<not> lt y x \<Longrightarrow> lt y z \<Longrightarrow> lt x z"
  unfolding strict_weak_order_def by blast


lemma mset_insort_by: "mset (insort_by lt x xs) = add_mset x (mset xs)"
  by (induction xs) auto

lemma mset_stable_sort: "mset (stable_sort lt xs) = mset xs"
  by (induction xs) (auto simp add: stable_sort_def mset_insort_by)


lemma length_stable_sort: "length (stable_sort lt xs) = length xs"
  by (metis mset_stable_sort size_mset)

lemma set_insort_by: "set (insort_by lt x xs) = insert x (set xs)"
  by (metis mset_insort_by set_mset_add_mset_insert set_mset_mset)

lemma sorted_insort_by:
  assumes "strict_weak_order lt" and "sorted_wrt (\<lambda>a b. \<not> lt b a) xs"
  shows "sorted_wrt (\<lambda>a b. \<not> lt b a) (insort_by lt x xs)"
  using assms(2)
proof (induction xs)
  case Nil
  then show ?case by simp
next
  case (Cons y ys)
  show ?case
  proof (cases "lt y x")
    case True
    then have "\<not> lt x y" using assms(1) swo_asym by metis
    then show ?thesis using True Cons by (auto simp add: set_insort_by)
  next
    case False
    then have "\<forall>z\<in>set ys. \<not> lt z x"
      using Cons.prems assms(1) swo_le_trans by (metis sorted_wrt.simps(2))
    then show ?thesis using False Cons.prems by auto
  qed
qed

lemma sorted_stable_sort:
  "strict_weak_order lt \<Longrightarrow> sorted_wrt (\<lambda>a b. \<not> lt b a) (stable_sort lt xs)"
  by (induction xs) (auto simp add: stable_sort_def sorted_insort_by)









section \<open>The small-input path\<close>

lemma push_store:
  assumes "\<not> m_result_computed cr" and "m_cur_el cr < m_el_in_run cr"
  shows "push cfg c v (cr, bm) =
         Some (Inr (cr\<lparr>m_blocks1 := m_blocks1 cr @ [v], m_cur_el := m_cur_el cr + 1\<rparr>, bm))"
  using assms by (subst push.simps) simp

lemma push_all_store:
  assumes "m_state s = STATE_INPUT" and "\<not> m_result_computed (m_runs_creator s)"
    and "m_cur_el (m_runs_creator s) + length xs \<le> m_el_in_run (m_runs_creator s)"
  shows "push_all cfg c xs (s, bm) =
         Some (Inr (s\<lparr>m_runs_creator := (m_runs_creator s)
                      \<lparr>m_blocks1 := m_blocks1 (m_runs_creator s) @ xs,
                       m_cur_el := m_cur_el (m_runs_creator s) + length xs\<rparr>\<rparr>, bm))"
  using assms
proof (induction xs arbitrary: s)
  case Nil
  then show ?case by simp
next
  case (Cons x xs)
  let ?cr = "m_runs_creator s"
  let ?s1 = "s\<lparr>m_runs_creator := ?cr\<lparr>m_blocks1 := m_blocks1 ?cr @ [x],
                                         m_cur_el := m_cur_el ?cr + 1\<rparr>\<rparr>"
  have lt: "m_cur_el ?cr < m_el_in_run ?cr" using Cons.prems(3) by simp
  have p: "sorter_push cfg c x (s, bm) = Some (Inr (?s1, bm))"
    using Cons.prems(1) Cons.prems(2) lt by (simp add: sorter_push_def push_store)
  have "push_all cfg c xs (?s1, bm) =
      Some (Inr (?s1\<lparr>m_runs_creator := (m_runs_creator ?s1)
                      \<lparr>m_blocks1 := m_blocks1 (m_runs_creator ?s1) @ xs,
                       m_cur_el := m_cur_el (m_runs_creator ?s1) + length xs\<rparr>\<rparr>, bm))"
    using Cons.prems by (intro Cons.IH) simp_all
  then show ?case using p by simp
qed

lemma fetch_all:
  "length inp \<le> last_idx - curr_idx \<Longrightarrow>
   fetch inp blocks curr_idx last_idx = (blocks @ inp, curr_idx + length inp, [])"
  by (induction inp arbitrary: blocks curr_idx) auto

lemma length_sort_run: "length (sort_run c xs) = length xs"
  by (simp add: sort_run_def length_stable_sort)

text \<open>Reading a merger that stands on the small-run buffer.\<close>

lemma merger_drain_small_run:
  assumes "in_small_run mg" and "m_sruns mg = Some d"
    and "m_current_end mg = length (small_run d)"
    and "m_current_ptr mg + m_elements_remaining mg = m_current_end mg"
  shows "merger_drain cfg c bm mg =
         Inr (drop (m_current_ptr mg) (small_run d),
              mg\<lparr>m_elements_remaining := 0, m_current_ptr := m_current_end mg\<rparr>)"
  using assms
proof (induction "m_elements_remaining mg" arbitrary: mg)
  case 0
  then have "mg\<lparr>m_elements_remaining := 0, m_current_ptr := m_current_end mg\<rparr> = mg"
    by simp
  then show ?case using 0 by (subst merger_drain.simps) (simp add: merger_empty_def)
next
  case (Suc n)
  let ?mg1 = "mg\<lparr>m_elements_remaining := m_elements_remaining mg - 1,
                   m_current_ptr := m_current_ptr mg + 1\<rparr>"
  have ne: "\<not> merger_empty mg" using Suc.hyps(2) by (simp add: merger_empty_def)
  have lt: "m_current_ptr mg < length (small_run d)" using Suc.hyps(2) Suc.prems by simp
  have d: "merger_deref mg = Inr (small_run d ! m_current_ptr mg)"
    using ne Suc.prems by (simp add: merger_deref_def)
  have nr: "\<not> advance_refills mg"
    using Suc.hyps(2) Suc.prems by (auto simp add: advance_refills_def)
  have i: "merger_inc cfg c bm mg = Inr ?mg1"
    using ne nr lt Suc.prems by (simp add: merger_inc_eq)
  have "merger_drain cfg c bm ?mg1 =
        Inr (drop (m_current_ptr ?mg1) (small_run d),
             ?mg1\<lparr>m_elements_remaining := 0, m_current_ptr := m_current_end ?mg1\<rparr>)"
    using Suc.hyps(2) Suc.prems by (intro Suc.hyps(1)) simp_all
  then have r: "merger_drain cfg c bm ?mg1 =
        Inr (drop (Suc (m_current_ptr mg)) (small_run d),
             mg\<lparr>m_elements_remaining := 0, m_current_ptr := m_current_end mg\<rparr>)"
    by simp
  show ?case
    using ne d i r lt by (subst merger_drain.simps) (simp add: Cons_nth_drop_Suc)
qed

lemma merger_drain_empty:
  "merger_empty mg \<Longrightarrow> merger_drain cfg c bm mg = Inr ([], mg)"
  by (subst merger_drain.simps) simp

text \<open>The sorter's stream is its merger's stream.\<close>

lemma sorter_drain_merger_drain:
  assumes "m_state s = STATE_OUTPUT"
  shows "sorter_drain cfg c bm s =
         (case merger_drain cfg c bm (m_runs_merger s) of
            Inl e \<Rightarrow> Inl e
          | Inr (xs, mg) \<Rightarrow> Inr (xs, s\<lparr>m_runs_merger := mg\<rparr>))"
  using assms
proof (induction "m_elements_remaining (m_runs_merger s)" arbitrary: s rule: less_induct)
  case less
  show ?case
  proof (cases "merger_empty (m_runs_merger s)")
    case True
    then show ?thesis
      using less.prems
      by (subst sorter_drain.simps) (simp add: sorter_empty_def merger_drain_empty)
  next
    case False
    show ?thesis
    proof (cases "merger_deref (m_runs_merger s)")
      case (Inl e)
      then show ?thesis
        using False less.prems
        by (subst sorter_drain.simps, subst merger_drain.simps)
          (simp add: sorter_empty_def sorter_deref_def)
    next
      case (Inr x)
      note dx = Inr
      show ?thesis
      proof (cases "merger_inc cfg c bm (m_runs_merger s)")
        case (Inl e)
        then show ?thesis
          using False dx less.prems
          by (subst sorter_drain.simps, subst merger_drain.simps)
            (simp add: sorter_empty_def sorter_deref_def sorter_inc_def)
      next
        case (Inr mg1)
        let ?s1 = "s\<lparr>m_runs_merger := mg1\<rparr>"
        have lt: "m_elements_remaining (m_runs_merger ?s1)
                  < m_elements_remaining (m_runs_merger s)"
          using merger_inc_remaining [OF Inr] by simp
        have st: "m_state ?s1 = STATE_OUTPUT" using less.prems by simp
        have ih: "sorter_drain cfg c bm ?s1 =
                  (case merger_drain cfg c bm (m_runs_merger ?s1) of
                     Inl e \<Rightarrow> Inl e
                   | Inr (xs, mg) \<Rightarrow> Inr (xs, ?s1\<lparr>m_runs_merger := mg\<rparr>))"
          using less.hyps [OF lt st] .
        show ?thesis
          using False dx Inr less.prems ih
          by (subst sorter_drain.simps, subst merger_drain.simps)
            (auto simp add: sorter_empty_def sorter_deref_def sorter_inc_def
              split: sum.splits)
      qed
    qed
  qed
qed


lemma creator_m2_pos:
  assumes "0 < BlockSize cfg" and "0 < memory_usage_factor cfg"
    and "2 * BlockSize cfg * memory_usage_factor cfg \<le> M"
  shows "0 < M div BlockSize cfg div memory_usage_factor cfg div 2"
  using memsize_ge_2 [OF assms] by (simp add: less_eq_div_iff_mult_less_eq)

lemma runs_creator_ctor_ok:
  assumes "sentinels_ok c" and "0 < BlockSize cfg" and "0 < memory_usage_factor cfg"
    and "2 * BlockSize cfg * memory_usage_factor cfg \<le> M"
  shows "runs_creator_ctor cfg c M =
         Inr \<lparr>m_result = empty_sorted_runs,
              m_m2 = M div BlockSize cfg div memory_usage_factor cfg div 2,
              m_el_in_run = M div BlockSize cfg div memory_usage_factor cfg div 2
                            * block_elems cfg,
              m_result_computed = False, m_cur_el = 0, m_blocks1 = [],
              buffers_allocated = True\<rparr>"
  using creator_m2_pos [OF assms(2) assms(3) assms(4)] assms(4)
  by (simp add: runs_creator_ctor_def verify_sentinel_passes [OF assms(1)] Let_def)

lemma basic_runs_merger_ctor_ok:
  assumes "sentinels_ok c"
  shows "basic_runs_merger_ctor c M =
         Inr \<lparr>m_memory_to_use = M, m_sruns = None, m_elements_remaining = 0,
               m_buffer_block = [], in_small_run = False, m_current_ptr = 0,
               m_current_end = 0, m_consume_seq = [], m_prefetch_seq = [],
               m_prefetcher = None, m_losers = None\<rparr>"
  by (simp add: basic_runs_merger_ctor_def verify_sentinel_passes [OF assms])

lemma block_le_run:
  assumes "0 < (m2::nat)" and "n \<le> b"
  shows "n \<le> m2 * b"
proof -
  have "b \<le> m2 * b" using assms(1) by (cases m2) simp_all
  then show ?thesis using assms(2) order_trans by blast
qed

text \<open>The push-mode creator on an input of at most one block.\<close>

lemma creator_result_small:
  assumes "m_result cr = empty_sorted_runs" and "\<not> m_result_computed cr"
    and "m_blocks1 cr = xs" and "m_cur_el cr = length xs"
    and "length xs \<le> block_elems cfg"
  shows "creator_result cfg c (cr, bm) =
         (cr\<lparr>m_blocks1 := sort_run c xs,
             m_result := empty_sorted_runs\<lparr>small_run := sort_run c xs,
                                            elements := length xs\<rparr>,
             m_result_computed := True\<rparr>, bm)"
proof (cases "xs = []")
  case True
  have "sort_run c [] = []" by (simp add: sort_run_def stable_sort_def)
  then show ?thesis
    using True assms
    by (simp add: creator_result_def compute_result_def empty_sorted_runs_def)
next
  case False
  then show ?thesis
    using assms
    by (simp add: creator_result_def compute_result_def empty_sorted_runs_def Let_def
        length_sort_run)
qed

lemma initialize_small_run:
  assumes "elements d = length (small_run d)"
  shows "initialize (Suc fuel) cfg c d (mg, bm) =
         Some (Inr (mg\<lparr>m_sruns := Some d, m_elements_remaining := elements d,
                       in_small_run := (if small_run d = [] then in_small_run mg else True),
                       m_current_ptr := (if small_run d = [] then m_current_ptr mg else 0),
                       m_current_end := (if small_run d = [] then m_current_end mg
                                         else length (small_run d))\<rparr>, bm))"
  using assms by (simp add: initialize_body_def merger_empty_def Let_def)

lemma merger_drain_after_small_init:
  assumes "elements d = length (small_run d)"
    and "initialize (Suc fuel) cfg c d (mg, bm) = Some (Inr (mg1, bm1))"
  shows "\<exists>mg2. merger_drain cfg c bm1 mg1 = Inr (small_run d, mg2)"
proof (cases "small_run d = []")
  case True
  then have "merger_empty mg1"
    using assms initialize_small_run [OF assms(1), of fuel cfg c mg bm]
    by (auto simp add: merger_empty_def)
  then show ?thesis using True by (simp add: merger_drain_empty)
next
  case False
  let ?m = "mg\<lparr>m_sruns := Some d, m_elements_remaining := elements d,
                 in_small_run := True, m_current_ptr := 0,
                 m_current_end := length (small_run d)\<rparr>"
  have e: "mg1 = ?m"
    using False assms initialize_small_run [OF assms(1), of fuel cfg c mg bm] by simp
  have "merger_drain cfg c bm1 ?m =
        Inr (drop (m_current_ptr ?m) (small_run d),
             ?m\<lparr>m_elements_remaining := 0, m_current_ptr := m_current_end ?m\<rparr>)"
    using assms(1) by (intro merger_drain_small_run) simp_all
  then show ?thesis using e by simp
qed


lemma sorter_ctor_ok:
  assumes "sentinels_ok c" and "0 < BlockSize cfg" and "0 < memory_usage_factor cfg"
    and "2 * BlockSize cfg * memory_usage_factor cfg \<le> cm"
  shows "\<exists>s. sorter_ctor cfg c cm mm = Inr s \<and> m_state s = STATE_INPUT \<and>
             m_result (m_runs_creator s) = empty_sorted_runs \<and>
             \<not> m_result_computed (m_runs_creator s) \<and>
             m_cur_el (m_runs_creator s) = 0 \<and> m_blocks1 (m_runs_creator s) = [] \<and>
             buffers_allocated (m_runs_creator s) \<and>
             0 < m_m2 (m_runs_creator s) \<and>
             m_el_in_run (m_runs_creator s) = m_m2 (m_runs_creator s) * block_elems cfg \<and>
             m_memory_to_use (m_runs_merger s) = mm \<and>
             m_prefetcher (m_runs_merger s) = None \<and> m_losers (m_runs_merger s) = None"
  using creator_m2_pos [OF assms(2) assms(3) assms(4)]
  by (simp add: sorter_ctor_def runs_creator_ctor_ok [OF assms]
      basic_runs_merger_ctor_ok [OF assms(1)])

lemma basic_compute_result_small:
  assumes "bc_result bc = empty_sorted_runs" and "2 \<le> m_memsize bc"
    and "length (m_input bc) \<le> block_elems cfg"
  shows "basic_compute_result cfg c (bc, bm) =
         Some (Inr (bc\<lparr>m_input := [],
                       bc_result := empty_sorted_runs
                          \<lparr>small_run := sort_run c (m_input bc),
                           elements := length (m_input bc)\<rparr>\<rparr>, bm))"
proof -
  have "0 < m_memsize bc div 2" using assms(2) by simp
  then have "length (m_input bc) \<le> m_memsize bc div 2 * block_elems cfg"
    using assms(3) by (rule block_le_run)
  then have f: "fetch (m_input bc) [] 0 (m_memsize bc div 2 * block_elems cfg)
                = (m_input bc, length (m_input bc), [])"
    using fetch_all [of "m_input bc" "m_memsize bc div 2 * block_elems cfg" 0 "[]"] by simp
  show ?thesis
    using assms(1) assms(3)
    by (simp add: basic_compute_result_def Let_def f empty_sorted_runs_def length_sort_run)
qed

text \<open>
  C2. An input of at most one block, with a creator whose construction succeeds.
  Push mode: no push flushes a run; finishing the creator stores the sorted elements
  in the small-run buffer, leaves the run list empty and leaves the block manager as it
  was (no block id is allocated); after \<^verbatim>\<open>sort()\<close> the stream yields the sorted
  elements. Stream mode: the same holds for the creator of the sort pipeline and the
  stream of its merger. The sorted elements are a permutation of the input, ordered
  when the comparator is a strict weak order.
\<close>

theorem small_input_optimization:
  assumes "sentinels_ok c" and "0 < BlockSize cfg" and "0 < memory_usage_factor cfg"
    and "2 * BlockSize cfg * memory_usage_factor cfg \<le> cm"
    and "length xs \<le> block_elems cfg"
  shows "(\<exists>s1 cr s2 s3.
            pushed_sorter cfg c cm mm xs bmi = Some (Inr (s1, bmi)) \<and>
            runs (m_result (m_runs_creator s1)) = [] \<and>
            creator_result cfg c (m_runs_creator s1, bmi) = (cr, bmi) \<and>
            small_run (m_result cr) = sort_run c xs \<and> runs (m_result cr) = [] \<and>
            elements (m_result cr) = length xs \<and>
            sorted_sorter (Suc fuel) cfg c cm mm xs bmi = Some (Inr (s2, bmi)) \<and>
            sorter_drain cfg c bmi s2 = Inr (sort_run c xs, s3)) \<and>
         (\<exists>ss mg.
            stream_sort_ctor (Suc fuel) cfg c xs cm mm bmi = Some (Inr (ss, bmi)) \<and>
            small_run (bc_result (creator ss)) = sort_run c xs \<and>
            runs (bc_result (creator ss)) = [] \<and>
            merger_drain cfg c bmi (merger ss) = Inr (sort_run c xs, mg)) \<and>
         mset (sort_run c xs) = mset xs \<and>
         (strict_weak_order (cmp_less c) \<longrightarrow>
            sorted_wrt (\<lambda>a b. \<not> cmp_less c b a) (sort_run c xs))"
proof -
  \<comment> \<open>push mode\<close>
  obtain s0 where s0: "sorter_ctor cfg c cm mm = Inr s0" "m_state s0 = STATE_INPUT"
      "m_result (m_runs_creator s0) = empty_sorted_runs"
      "\<not> m_result_computed (m_runs_creator s0)"
      "m_cur_el (m_runs_creator s0) = 0" "m_blocks1 (m_runs_creator s0) = []"
      "buffers_allocated (m_runs_creator s0)" "0 < m_m2 (m_runs_creator s0)"
      "m_el_in_run (m_runs_creator s0) = m_m2 (m_runs_creator s0) * block_elems cfg"
    using sorter_ctor_ok [OF assms(1-4), of mm] by blast
  define cr1 where "cr1 = (m_runs_creator s0)\<lparr>m_blocks1 := xs, m_cur_el := length xs\<rparr>"
  define s1 where "s1 = s0\<lparr>m_runs_creator := cr1\<rparr>"
  have room: "m_cur_el (m_runs_creator s0) + length xs \<le> m_el_in_run (m_runs_creator s0)"
    using s0(5) s0(9) block_le_run [OF s0(8) assms(5)] by simp
  have pa: "push_all cfg c xs (s0, bmi) = Some (Inr (s1, bmi))"
    using push_all_store [OF s0(2) s0(4) room, of cfg c bmi] s0(5) s0(6)
    by (simp add: s1_def cr1_def)
  have ps: "pushed_sorter cfg c cm mm xs bmi = Some (Inr (s1, bmi))"
    by (simp add: pushed_sorter_def s0(1) pa)
  have noruns: "runs (m_result (m_runs_creator s1)) = []"
    by (simp add: s1_def cr1_def s0(3) empty_sorted_runs_def)
  define d where "d = empty_sorted_runs\<lparr>small_run := sort_run c xs, elements := length xs\<rparr>"
  define cr2 where "cr2 = cr1\<lparr>m_blocks1 := sort_run c xs, m_result := d,
                              m_result_computed := True\<rparr>"
  have res: "creator_result cfg c (cr1, bmi) = (cr2, bmi)"
    unfolding cr2_def d_def
    by (rule creator_result_small) (simp_all add: cr1_def s0 assms(5))
  have cr2a: "m_result cr2 = d" "buffers_allocated cr2" "m_result_computed cr2"
    by (simp_all add: cr2_def cr1_def s0(7))
  have dprops: "small_run d = sort_run c xs" "runs d = []" "elements d = length xs"
      "elements d = length (small_run d)"
    by (simp_all add: d_def empty_sorted_runs_def length_sort_run)
  define cr3 where "cr3 = cr2\<lparr>m_blocks1 := [], buffers_allocated := False\<rparr>"
  have dea: "creator_deallocate cfg c (m_runs_creator s1, snd (s1, bmi)) = (cr3, bmi)"
    using res cr2a(2) by (simp add: creator_deallocate_def s1_def cr3_def)
  have cr3a: "m_result cr3 = d" by (simp add: cr3_def cr2a(1))
  obtain mg1 where ini: "initialize (Suc fuel) cfg c d (m_runs_merger s0, bmi)
                         = Some (Inr (mg1, bmi))" and mg1: "m_sruns mg1 = Some d"
    using initialize_small_run [OF dprops(4), of fuel cfg c "m_runs_merger s0" bmi] by simp
  define s2 where "s2 = s1\<lparr>m_state := STATE_OUTPUT, m_runs_creator := share_result mg1 cr3,
                             m_runs_merger := mg1\<rparr>"
  have so: "sorter_sort (Suc fuel) cfg c (s1, bmi) = Some (Inr (s2, bmi))"
    using dea ini cr3a s0(2)
    by (simp add: sorter_sort_def s1_def s2_def del: initialize.simps)
  have ss: "sorted_sorter (Suc fuel) cfg c cm mm xs bmi = Some (Inr (s2, bmi))"
    by (simp add: sorted_sorter_def ps so del: initialize.simps)
  obtain mg2 where md: "merger_drain cfg c bmi mg1 = Inr (small_run d, mg2)"
    using merger_drain_after_small_init [OF dprops(4) ini] by blast
  have st2: "m_state s2 = STATE_OUTPUT" by (simp add: s2_def)
  have sd: "sorter_drain cfg c bmi s2 = Inr (sort_run c xs, s2\<lparr>m_runs_merger := mg2\<rparr>)"
    using sorter_drain_merger_drain [OF st2, of cfg c bmi] md dprops(1)
    by (simp add: s2_def)
  have push_mode: "\<exists>s1 cr s2 s3.
            pushed_sorter cfg c cm mm xs bmi = Some (Inr (s1, bmi)) \<and>
            runs (m_result (m_runs_creator s1)) = [] \<and>
            creator_result cfg c (m_runs_creator s1, bmi) = (cr, bmi) \<and>
            small_run (m_result cr) = sort_run c xs \<and> runs (m_result cr) = [] \<and>
            elements (m_result cr) = length xs \<and>
            sorted_sorter (Suc fuel) cfg c cm mm xs bmi = Some (Inr (s2, bmi)) \<and>
            sorter_drain cfg c bmi s2 = Inr (sort_run c xs, s3)"
    using ps noruns res cr2a(1) dprops ss sd by (auto simp add: s1_def)
  \<comment> \<open>stream mode\<close>
  have ms: "2 \<le> cm div BlockSize cfg div memory_usage_factor cfg"
    using memsize_ge_2 [OF assms(2) assms(3) assms(4)] .
  define bc0 where "bc0 = \<lparr>m_input = xs, bc_result = empty_sorted_runs,
      m_memsize = cm div BlockSize cfg div memory_usage_factor cfg,
      bc_result_computed = False\<rparr>"
  have bctor: "basic_runs_creator_ctor cfg c xs cm = Inr bc0"
    using ms assms(4)
    by (simp add: basic_runs_creator_ctor_def verify_sentinel_passes [OF assms(1)] Let_def
        bc0_def)
  define bc1 where "bc1 = bc0\<lparr>m_input := [], bc_result := d, bc_result_computed := True\<rparr>"
  have bcr: "basic_compute_result cfg c (bc0, bmi) =
      Some (Inr (bc0\<lparr>m_input := [], bc_result := d\<rparr>, bmi))"
    using basic_compute_result_small [of bc0 cfg c bmi] ms assms(5)
    by (simp add: bc0_def d_def)
  have bres: "basic_result cfg c (bc0, bmi) = Some (Inr (bc1, bmi))"
    by (simp add: basic_result_def bcr bc1_def) (simp add: bc0_def)
  have bc1r: "bc_result bc1 = d" by (simp add: bc1_def)
  define mg0 where "mg0 = \<lparr>m_memory_to_use = mm, m_sruns = None, m_elements_remaining = 0,
               m_buffer_block = ([]::'a list), in_small_run = False, m_current_ptr = 0,
               m_current_end = 0, m_consume_seq = [], m_prefetch_seq = [],
               m_prefetcher = None, m_losers = None\<rparr>"
  have mctor: "basic_runs_merger_ctor c mm = Inr mg0"
    by (simp add: basic_runs_merger_ctor_ok [OF assms(1)] mg0_def)
  obtain mg3 where ini3: "initialize (Suc fuel) cfg c d (mg0, bmi) = Some (Inr (mg3, bmi))"
    and mg3: "m_sruns mg3 = Some d"
    using initialize_small_run [OF dprops(4), of fuel cfg c mg0 bmi] by simp
  define st where "st = \<lparr>creator = bc1\<lparr>bc_result := d\<rparr>, merger = mg3\<rparr>"
  have sctor: "stream_sort_ctor (Suc fuel) cfg c xs cm mm bmi = Some (Inr (st, bmi))"
    using ini3 mg3
    by (simp add: stream_sort_ctor_def bctor bres mctor bc1r
        verify_sentinel_passes [OF assms(1)] st_def del: initialize.simps)
  obtain mg4 where md4: "merger_drain cfg c bmi mg3 = Inr (small_run d, mg4)"
    using merger_drain_after_small_init [OF dprops(4) ini3] by blast
  have stream_mode: "\<exists>ss mg.
            stream_sort_ctor (Suc fuel) cfg c xs cm mm bmi = Some (Inr (ss, bmi)) \<and>
            small_run (bc_result (creator ss)) = sort_run c xs \<and>
            runs (bc_result (creator ss)) = [] \<and>
            merger_drain cfg c bmi (merger ss) = Inr (sort_run c xs, mg)"
    using sctor md4 dprops by (auto simp add: st_def)
  have m: "mset (sort_run c xs) = mset xs" by (simp add: sort_run_def mset_stable_sort)
  have srt: "strict_weak_order (cmp_less c) \<longrightarrow>
            sorted_wrt (\<lambda>a b. \<not> cmp_less c b a) (sort_run c xs)"
    by (simp add: sort_run_def sorted_stable_sort)
  show ?thesis using push_mode stream_mode m srt by blast
qed

theorem small_input_optimization_witness:
  "sentinels_ok nat_cmp \<and> length [7, 3, 5::nat] \<le> block_elems cfg4 \<and>
   (\<exists>s2 s3. sorted_sorter (Suc 0) cfg4 nat_cmp 64 64 [7, 3, 5] new_block_manager
               = Some (Inr (s2, new_block_manager)) \<and>
            sorter_drain cfg4 nat_cmp new_block_manager s2 = Inr ([3, 5, 7], s3)) \<and>
   (\<exists>ss mg. stream_sort_ctor (Suc 0) cfg4 nat_cmp [7, 3, 5] 64 64 new_block_manager
               = Some (Inr (ss, new_block_manager)) \<and>
            small_run (bc_result (creator ss)) = [3, 5, 7] \<and>
            merger_drain cfg4 nat_cmp new_block_manager (merger ss) = Inr ([3, 5, 7], mg))"
proof -
  have h1: "sentinels_ok nat_cmp" by (simp add: sentinels_ok_def nat_cmp_def)
  have h2: "0 < BlockSize cfg4" by (simp add: cfg4_def)
  have h3: "0 < memory_usage_factor cfg4" by (simp add: cfg4_def)
  have h4: "2 * BlockSize cfg4 * memory_usage_factor cfg4 \<le> 64" by (simp add: cfg4_def)
  have h5: "length [7, 3, 5::nat] \<le> block_elems cfg4" by (simp add: cfg4_def)
  have sr: "sort_run nat_cmp [7, 3, 5] = [3, 5, 7]"
    by (simp add: sort_run_def stable_sort_def nat_cmp_def)
  show ?thesis
    using h1 h5
      small_input_optimization [OF h1 h2 h3 h4 h5, where mm = 64
        and bmi = new_block_manager and fuel = 0]
    unfolding sr by blast
qed

section \<open>Memory planning of the merger\<close>






lemma fill_buffer_block_sruns:
  "fill_buffer_block cfg c bm mg = Inr mg' \<Longrightarrow> m_sruns mg' = m_sruns mg"
  by (auto simp add: fill_buffer_block_def deallocate_prefetcher_def Let_def
      split: option.splits sum.splits prod.splits if_splits)


lemma initialize_single_pass_result:
  assumes "initialize_single_pass cfg c ib (mg1, bm1) = Inr (mg', bm')"
  shows "\<exists>d. m_sruns mg1 = Some d \<and> m_sruns mg' = Some d \<and> bm' = bm1 \<and>
             length (runs d) + 2 * disks_number cfg \<le> ib"
  using assms
  by (auto simp add: initialize_single_pass_def Let_def deallocate_prefetcher_def
      dest!: fill_buffer_block_sruns
      split: option.splits sum.splits prod.splits if_splits)



















section \<open>Rewinding\<close>

lemma merge_groups_fields:
  "merge_groups init cfg c M mf nruns d rl co el nr bm = Some (Inr (el', nr', bm')) \<Longrightarrow>
   elements nr' = elements nr \<and> small_run nr' = small_run nr"
proof (induction rl arbitrary: co el nr bm rule: less_induct)
  case (less rl)
  show ?case
  proof (cases "1 < mf \<and> 0 < rl")
    case False
    then show ?thesis
      using less.prems by (subst (asm) merge_groups.simps) (auto split: if_splits)
  next
    case True
    then have lt: "rl - min rl mf < rl" by simp
    from less.prems True obtain co1 el1 nr1 bm1 where
      r: "merge_groups init cfg c M mf nruns d (rl - min rl mf) co1 el1 nr1 bm1
          = Some (Inr (el', nr', bm'))"
      and l: "elements nr1 = elements nr" "small_run nr1 = small_run nr"
      by (subst (asm) merge_groups.simps)
        (auto simp add: Let_def split: prod.splits sum.splits option.splits if_splits)
    show ?thesis using less.IH [OF lt r] l by simp
  qed
qed

lemma merge_passes_fields:
  "merge_passes init cfg c M mf max_arity nruns d bm = Some (Inr (d', bm')) \<Longrightarrow>
   elements d' = elements d \<and> (small_run d = [] \<longrightarrow> small_run d' = [])"
proof (induction nruns arbitrary: d bm rule: less_induct)
  case (less nruns)
  show ?case
  proof (cases "1 < mf \<and> mf \<le> max_arity \<and> max_arity < nruns")
    case False
    then show ?thesis
      using less.prems
      by (subst (asm) merge_passes.simps) (auto split: if_splits)
  next
    case True
    then obtain el nr bm1 where
      g: "merge_groups init cfg c M mf nruns d nruns 0 (elements d)
            \<lparr>runs = replicate (div_ceil nruns mf) [],
             runs_sizes = replicate (div_ceil nruns mf) 0,
             elements = elements d, small_run = []\<rparr> bm = Some (Inr (el, nr, bm1))"
      and r: "merge_passes init cfg c M mf max_arity (div_ceil nruns mf) nr bm1
              = Some (Inr (d', bm'))"
      using less.prems(1)
      by (subst (asm) merge_passes.simps)
        (auto simp add: Let_def split: prod.splits sum.splits option.splits if_splits)
    have lt: "div_ceil nruns mf < nruns" using True by (simp add: div_ceil_less)
    have "elements nr = elements d \<and> small_run nr = []"
      using merge_groups_fields [OF g] by simp
    then show ?thesis using less.IH [OF lt r] by simp
  qed
qed

lemma merge_recursively_fields:
  assumes "merge_recursively init cfg c (mg, bm) = Some (Inr (mg', bm'))"
  shows "\<exists>d d'. m_sruns mg = Some d \<and> mg' = mg\<lparr>m_sruns := Some d'\<rparr> \<and>
                elements d' = elements d \<and> (small_run d = [] \<longrightarrow> small_run d' = [])"
proof (cases "m_sruns mg")
  case None
  then show ?thesis using assms by (simp add: merge_recursively_def)
next
  case (Some d)
  define mf where
    "mf = merge_factor_fn cfg (length (runs d)) (max_arity_of cfg (m_memory_to_use mg))"
  from assms Some obtain d' where
    p: "merge_passes init cfg c (m_memory_to_use mg) mf (max_arity_of cfg (m_memory_to_use mg))
          (length (runs d)) d bm = Some (Inr (d', bm'))"
    and e: "mg' = mg\<lparr>m_sruns := Some d'\<rparr>"
    by (auto simp add: merge_recursively_def Let_def mf_def
        split: option.splits sum.splits prod.splits if_splits)
  show ?thesis using merge_passes_fields [OF p] e Some by blast
qed

text \<open>
  The single pass only reads the memory budget, the descriptor and the element count of
  the merger it starts from; every other member is overwritten.
\<close>

lemma fill_buffer_block_cong:
  assumes "m_memory_to_use a = m_memory_to_use b" and "m_sruns a = m_sruns b"
    and "m_elements_remaining a = m_elements_remaining b"
    and "m_consume_seq a = m_consume_seq b" and "m_prefetch_seq a = m_prefetch_seq b"
    and "m_prefetcher a = m_prefetcher b" and "m_losers a = m_losers b"
  shows "fill_buffer_block cfg c bm a = fill_buffer_block cfg c bm b"
  using assms
  by (cases a, cases b)
    (auto simp add: fill_buffer_block_def deallocate_prefetcher_def Let_def
      split: option.splits sum.splits prod.splits)

lemma initialize_single_pass_cong:
  assumes "m_memory_to_use a = m_memory_to_use b" and "m_sruns a = m_sruns b"
    and "m_elements_remaining a = m_elements_remaining b"
  shows "initialize_single_pass cfg c ib (a, bm) = initialize_single_pass cfg c ib (b, bm)"
proof (cases "m_sruns a")
  case None
  then show ?thesis using assms by (simp add: initialize_single_pass_def)
next
  case (Some d)
  have f: "\<And>lt pf1. fill_buffer_block cfg c bm
          ((deallocate_prefetcher a)\<lparr>m_consume_seq := consume_sequence c d,
             m_prefetch_seq := [0..<sum_list (map length (runs d))],
             m_prefetcher := Some pf1, m_losers := Some lt\<rparr>)
      = fill_buffer_block cfg c bm
          ((deallocate_prefetcher b)\<lparr>m_consume_seq := consume_sequence c d,
             m_prefetch_seq := [0..<sum_list (map length (runs d))],
             m_prefetcher := Some pf1, m_losers := Some lt\<rparr>)"
    using assms by (intro fill_buffer_block_cong) (simp_all add: deallocate_prefetcher_def)
  show ?thesis
    using Some assms(2) by (simp add: initialize_single_pass_def Let_def f split: prod.split)
qed

lemma fill_buffer_block_memory:
  "fill_buffer_block cfg c bm mg = Inr mg' \<Longrightarrow>
   m_memory_to_use mg' = m_memory_to_use mg \<and> m_sruns mg' = m_sruns mg"
  by (auto simp add: fill_buffer_block_def deallocate_prefetcher_def Let_def
      split: option.splits sum.splits prod.splits if_splits)

lemma merger_inc_memory:
  "merger_inc cfg c bm mg = Inr mg' \<Longrightarrow>
   m_memory_to_use mg' = m_memory_to_use mg \<and> m_sruns mg' = m_sruns mg"
  by (auto simp add: merger_inc_def Let_def dest!: fill_buffer_block_memory split: if_splits)

lemma merger_drain_memory:
  "merger_drain cfg c bm mg = Inr (out, mg') \<Longrightarrow>
   m_memory_to_use mg' = m_memory_to_use mg \<and> m_sruns mg' = m_sruns mg"
proof (induction "m_elements_remaining mg" arbitrary: mg out rule: less_induct)
  case less
  show ?case
  proof (cases "merger_empty mg")
    case True
    then show ?thesis using less.prems by (simp add: merger_drain_empty)
  next
    case False
    from less.prems False obtain x mg1 xs where
      i: "merger_inc cfg c bm mg = Inr mg1" and r: "merger_drain cfg c bm mg1 = Inr (xs, mg')"
      by (subst (asm) merger_drain.simps) (auto split: sum.splits prod.splits)
    have lt: "m_elements_remaining mg1 < m_elements_remaining mg"
      using merger_inc_remaining [OF i] by simp
    show ?thesis using less.hyps [OF lt r] merger_inc_memory [OF i] by simp
  qed
qed


lemma initialize_single_pass_memory:
  assumes "initialize_single_pass cfg c ib (mg1, bm1) = Inr (mg', bm')"
  shows "m_memory_to_use mg' = m_memory_to_use mg1 \<and>
         m_elements_remaining mg' = m_elements_remaining mg1"
proof -
  from assms obtain mg3 where f: "fill_buffer_block cfg c bm1 mg3 = Inr mg'"
    and e: "m_memory_to_use mg3 = m_memory_to_use mg1"
           "m_elements_remaining mg3 = m_elements_remaining mg1"
    by (fastforce simp add: initialize_single_pass_def Let_def deallocate_prefetcher_def
        split: option.splits sum.splits prod.splits if_splits)
  show ?thesis
    using fill_buffer_block_memory [OF f] fill_buffer_block_remaining [OF f] e by simp
qed

lemma initialize_body_Inr:
  assumes b: "initialize_body init cfg c d (mg, bm) = Some (Inr (mg1, bm1))"
    and ne: "elements d \<noteq> 0" and sm: "small_run d = []"
  shows "\<exists>mgr bmr.
     (if input_buffers_of cfg (m_memory_to_use mg) < length (runs d) + 2 * disks_number cfg
      then merge_recursively init cfg c
             (mg\<lparr>m_sruns := Some d, m_elements_remaining := elements d\<rparr>, bm)
           = Some (Inr (mgr, bmr))
      else mgr = mg\<lparr>m_sruns := Some d, m_elements_remaining := elements d\<rparr> \<and> bmr = bm) \<and>
     initialize_single_pass cfg c (input_buffers_of cfg (m_memory_to_use mg)) (mgr, bmr)
       = Inr (mg1, bm1)"
proof (cases "input_buffers_of cfg (m_memory_to_use mg)
              < length (runs d) + 2 * disks_number cfg")
  case True
  then show ?thesis
    using assms
    by (auto simp add: initialize_body_def Let_def merger_empty_def
        split: option.splits sum.splits if_splits)
next
  case False
  then show ?thesis
    using assms by (simp add: initialize_body_def Let_def merger_empty_def)
qed

text \<open>
  Initializing a second time with the descriptor the first initialization left behind,
  from any merger with the same memory budget, leaves the block manager as it is and
  yields a merger with the same stream.
\<close>

lemma initialize_again:
  assumes i: "initialize fuel cfg c d0 (mg0, bm0) = Some (Inr (mg1, bm1))"
    and m: "m_memory_to_use mgx = m_memory_to_use mg0"
  shows "\<exists>d1 mg2. m_sruns mg1 = Some d1 \<and>
           initialize fuel cfg c d1 (mgx, bm1) = Some (Inr (mg2, bm1)) \<and>
           m_sruns mg2 = Some d1 \<and>
           map_sum id fst (merger_drain cfg c bm1 mg2)
             = map_sum id fst (merger_drain cfg c bm1 mg1)"
proof (cases fuel)
  case 0
  then show ?thesis using i by simp
next
  case (Suc f)
  define a0 where "a0 = mg0\<lparr>m_sruns := Some d0, m_elements_remaining := elements d0\<rparr>"
  define x0 where "x0 = mgx\<lparr>m_sruns := Some d0, m_elements_remaining := elements d0\<rparr>"
  define ib where "ib = input_buffers_of cfg (m_memory_to_use mg0)"
  have b: "initialize_body (initialize f cfg c) cfg c d0 (mg0, bm0) = Some (Inr (mg1, bm1))"
    using i Suc by simp
  show ?thesis
  proof (cases "elements d0 = 0")
    case True
    then have e: "mg1 = a0" "bm1 = bm0"
      using b by (simp_all add: initialize_body_def a0_def merger_empty_def)
    have "initialize fuel cfg c d0 (mgx, bm1) = Some (Inr (x0, bm1))"
      using True Suc by (simp add: initialize_body_def x0_def merger_empty_def)
    moreover have "merger_drain cfg c bm1 x0 = Inr ([], x0)"
      using True by (intro merger_drain_empty) (simp add: x0_def merger_empty_def)
    moreover have "merger_drain cfg c bm1 mg1 = Inr ([], mg1)"
      using True e by (intro merger_drain_empty) (simp add: a0_def merger_empty_def)
    ultimately show ?thesis using e by (simp add: a0_def x0_def)
  next
    case ne: False
    show ?thesis
    proof (cases "small_run d0 = []")
      case False
      define a1 where "a1 = a0\<lparr>in_small_run := True, m_current_ptr := 0,
                                m_current_end := length (small_run d0)\<rparr>"
      define x1 where "x1 = x0\<lparr>in_small_run := True, m_current_ptr := 0,
                                m_current_end := length (small_run d0)\<rparr>"
      have l: "elements d0 = length (small_run d0)"
        using b ne False
        by (auto simp add: initialize_body_def a0_def merger_empty_def split: if_splits)
      have e: "mg1 = a1" "bm1 = bm0"
        using b ne False
        by (auto simp add: initialize_body_def a0_def a1_def merger_empty_def
            split: if_splits)
      have "initialize fuel cfg c d0 (mgx, bm1) = Some (Inr (x1, bm1))"
        using ne False Suc l
        by (simp add: initialize_body_def x0_def x1_def merger_empty_def)
      moreover have "merger_drain cfg c bm1 x1 =
          Inr (drop (m_current_ptr x1) (small_run d0),
               x1\<lparr>m_elements_remaining := 0, m_current_ptr := m_current_end x1\<rparr>)"
        using l by (intro merger_drain_small_run) (simp_all add: x1_def x0_def)
      moreover have "merger_drain cfg c bm1 a1 =
          Inr (drop (m_current_ptr a1) (small_run d0),
               a1\<lparr>m_elements_remaining := 0, m_current_ptr := m_current_end a1\<rparr>)"
        using l by (intro merger_drain_small_run) (simp_all add: a1_def a0_def)
      ultimately show ?thesis using e by (simp add: a1_def a0_def x1_def x0_def)
    next
      case True
      from initialize_body_Inr [OF b ne True] obtain mgr bmr where
        r: "if ib < length (runs d0) + 2 * disks_number cfg
            then merge_recursively (initialize f cfg c) cfg c (a0, bm0) = Some (Inr (mgr, bmr))
            else mgr = a0 \<and> bmr = bm0"
        and s: "initialize_single_pass cfg c ib (mgr, bmr) = Inr (mg1, bm1)"
        unfolding a0_def ib_def by blast
      have "\<exists>d1. mgr = a0\<lparr>m_sruns := Some d1\<rparr> \<and> elements d1 = elements d0 \<and>
                 small_run d1 = []"
      proof (cases "ib < length (runs d0) + 2 * disks_number cfg")
        case False
        then have "mgr = a0" using r by simp
        then show ?thesis using True by (intro exI [of _ d0]) (simp add: a0_def)
      next
        case True
        then have "merge_recursively (initialize f cfg c) cfg c (a0, bm0)
                   = Some (Inr (mgr, bmr))"
          using r by simp
        from merge_recursively_fields [OF this] \<open>small_run d0 = []\<close>
        show ?thesis by (auto simp add: a0_def)
      qed
      then obtain d1 where mgr: "mgr = a0\<lparr>m_sruns := Some d1\<rparr>"
        and el: "elements d1 = elements d0" and sr: "small_run d1 = []"
        by blast
      from initialize_single_pass_result [OF s] mgr
      have s1: "m_sruns mg1 = Some d1" and bm: "bm1 = bmr"
        and fit: "length (runs d1) + 2 * disks_number cfg \<le> ib"
        by simp_all
      define x1 where "x1 = mgx\<lparr>m_sruns := Some d1, m_elements_remaining := elements d1\<rparr>"
      have "initialize_single_pass cfg c ib (x1, bm1)
            = initialize_single_pass cfg c ib (mgr, bm1)"
        using m el by (intro initialize_single_pass_cong) (simp_all add: x1_def mgr a0_def)
      then have "initialize_single_pass cfg c ib (x1, bm1) = Inr (mg1, bm1)"
        using s bm by simp
      then have "initialize fuel cfg c d1 (mgx, bm1) = Some (Inr (mg1, bm1))"
        using Suc ne el sr fit m
        by (simp add: initialize_body_def Let_def merger_empty_def x1_def ib_def)
      then show ?thesis using s1 by blast
    qed
  qed
qed

lemma initialize_memory:
  assumes "initialize fuel cfg c d0 (mg0, bm0) = Some (Inr (mg1, bm1))"
  shows "m_memory_to_use mg1 = m_memory_to_use mg0"
proof (cases fuel)
  case 0
  then show ?thesis using assms by simp
next
  case (Suc f)
  define a0 where "a0 = mg0\<lparr>m_sruns := Some d0, m_elements_remaining := elements d0\<rparr>"
  have b: "initialize_body (initialize f cfg c) cfg c d0 (mg0, bm0) = Some (Inr (mg1, bm1))"
    using assms Suc by simp
  show ?thesis
  proof (cases "elements d0 = 0 \<or> small_run d0 \<noteq> []")
    case True
    then show ?thesis
      using b by (auto simp add: initialize_body_def merger_empty_def Let_def split: if_splits)
  next
    case False
    from False have ne: "elements d0 \<noteq> 0" and sm: "small_run d0 = []" by simp_all
    from initialize_body_Inr [OF b ne sm] obtain mgr bmr where
      r: "if input_buffers_of cfg (m_memory_to_use mg0) < length (runs d0) + 2 * disks_number cfg
          then merge_recursively (initialize f cfg c) cfg c (a0, bm0) = Some (Inr (mgr, bmr))
          else mgr = a0 \<and> bmr = bm0"
      and s: "initialize_single_pass cfg c (input_buffers_of cfg (m_memory_to_use mg0))
                (mgr, bmr) = Inr (mg1, bm1)"
      unfolding a0_def by blast
    have "m_memory_to_use mgr = m_memory_to_use mg0"
      using r by (auto simp add: a0_def split: if_splits dest!: merge_recursively_fields)
    then show ?thesis using initialize_single_pass_memory [OF s] by simp
  qed
qed

lemma creator_deallocate_computed:
  assumes "creator_deallocate cfg c st = (cr, bm)"
  shows "m_result_computed cr"
  using assms
  by (auto simp add: creator_deallocate_def creator_result_def Let_def
      split: prod.splits if_splits)

lemma creator_result_computed:
  assumes "creator_result cfg c st = (cr, bm)"
  shows "m_result_computed cr"
  using assms
  by (auto simp add: creator_result_def Let_def split: prod.splits if_splits)

lemma creator_deallocate_again:
  assumes "m_result_computed cr"
  shows "\<exists>cr'. creator_deallocate cfg c (cr, bm) = (cr', bm) \<and> m_result cr' = m_result cr"
  using assms by (simp add: creator_deallocate_def creator_result_def)

text \<open>
  C5: a sorter in the output state, as \<^verbatim>\<open>sort()\<close> or \<^verbatim>\<open>sort_reuse()\<close> leaves it, is
  read to its end; then \<^verbatim>\<open>rewind()\<close> succeeds, leaves the block manager as it is, and
  reading the sorter to its end a second time yields the same sequence of elements.
\<close>

theorem rewind_yields_same_stream:
  assumes "sorter_sort fuel cfg c st = Some (Inr (s1, bm)) \<or>
           sorter_sort_reuse fuel cfg c st = Some (Inr (s1, bm))"
    and "sorter_drain cfg c bm s1 = Inr (out, s2)"
  shows "\<exists>s3 s4. sorter_rewind fuel cfg c (s2, bm) = Some (Inr (s3, bm)) \<and>
                 sorter_drain cfg c bm s3 = Inr (out, s4)"
proof -
  obtain s bmi where st: "st = (s, bmi)" by (cases st)
  have "\<exists>cr mg bm0 mg1. initialize fuel cfg c (m_result cr) (mg, bm0) = Some (Inr (mg1, bm)) \<and>
          m_result_computed cr \<and>
          s1 = s\<lparr>m_state := STATE_OUTPUT, m_runs_creator := share_result mg1 cr,
                 m_runs_merger := mg1\<rparr>"
    using assms(1)
  proof
    assume a: "sorter_sort fuel cfg c st = Some (Inr (s1, bm))"
    obtain cr bm0 where cd: "creator_deallocate cfg c (m_runs_creator s, bmi) = (cr, bm0)"
      by (cases "creator_deallocate cfg c (m_runs_creator s, bmi)")
    show ?thesis
      using a creator_deallocate_computed [OF cd] unfolding st
      by (auto simp add: sorter_sort_def Let_def cd split: option.splits sum.splits)
  next
    assume a: "sorter_sort_reuse fuel cfg c st = Some (Inr (s1, bm))"
    obtain cr bm0 where cd: "creator_result cfg c (m_runs_creator s, bmi) = (cr, bm0)"
      by (cases "creator_result cfg c (m_runs_creator s, bmi)")
    show ?thesis
      using a creator_result_computed [OF cd] unfolding st
      by (auto simp add: sorter_sort_reuse_def Let_def cd
          split: option.splits sum.splits if_splits)
  qed
  then obtain cr mg bm0 mg1 where
    i: "initialize fuel cfg c (m_result cr) (mg, bm0) = Some (Inr (mg1, bm))"
    and comp: "m_result_computed cr"
    and s1: "s1 = s\<lparr>m_state := STATE_OUTPUT, m_runs_creator := share_result mg1 cr,
                    m_runs_merger := mg1\<rparr>"
    by blast
  have o1: "m_state s1 = STATE_OUTPUT" and m1: "m_runs_merger s1 = mg1"
    using s1 by simp_all
  from assms(2) obtain mg2 where
    d1: "merger_drain cfg c bm mg1 = Inr (out, mg2)"
    and s2: "s2 = s1\<lparr>m_runs_merger := mg2\<rparr>"
    unfolding sorter_drain_merger_drain [OF o1] m1
    by (auto split: sum.splits prod.splits)
  have mem: "m_memory_to_use (merger_deallocate mg2) = m_memory_to_use mg"
    using merger_drain_memory [OF d1] initialize_memory [OF i]
    by (simp add: merger_deallocate_def deallocate_prefetcher_def)
  from initialize_again [OF i mem] obtain d1' mg3 where
    sr: "m_sruns mg1 = Some d1'"
    and i2: "initialize fuel cfg c d1' (merger_deallocate mg2, bm) = Some (Inr (mg3, bm))"
    and sr3: "m_sruns mg3 = Some d1'"
    and eq: "map_sum id fst (merger_drain cfg c bm mg3)
             = map_sum id fst (merger_drain cfg c bm mg1)"
    by blast
  from eq d1 obtain mg4 where d2: "merger_drain cfg c bm mg3 = Inr (out, mg4)"
    by (cases "merger_drain cfg c bm mg3") auto
  define cr1 where "cr1 = share_result mg1 cr"
  have cr1: "m_result cr1 = d1'" "m_result_computed cr1"
    using comp sr by (simp_all add: cr1_def share_result_def)
  from creator_deallocate_again [OF cr1(2)] obtain cr2 where
    cd2: "creator_deallocate cfg c (cr1, bm) = (cr2, bm)" and r2: "m_result cr2 = d1'"
    using cr1(1) by metis
  define s3 where "s3 = s2\<lparr>m_runs_merger := mg3, m_state := STATE_OUTPUT,
                            m_runs_creator := share_result mg3 cr2\<rparr>"
  have "sorter_rewind fuel cfg c (s2, bm) = Some (Inr (s3, bm))"
    using i2 r2 cd2
    by (simp add: sorter_rewind_def sorter_sort_def Let_def s2 s1 cr1_def [symmetric] s3_def)
  moreover have "sorter_drain cfg c bm s3 = Inr (out, s3\<lparr>m_runs_merger := mg4\<rparr>)"
    using d2 by (subst sorter_drain_merger_drain) (simp_all add: s3_def)
  ultimately show ?thesis by blast
qed

lemma some_inr_caseD:
  "(case x of Some (Inr a) \<Rightarrow> P a | _ \<Rightarrow> False) \<Longrightarrow> \<exists>a. x = Some (Inr a) \<and> P a"
  by (auto split: option.splits sum.splits)

lemma inr_caseD:
  "(case x of Inr a \<Rightarrow> P a | Inl e \<Rightarrow> False) \<Longrightarrow> \<exists>a. x = Inr a \<and> P a"
  by (auto split: sum.splits)

theorem rewind_yields_same_stream_witness:
  "\<exists>st s1 bm s2.
      pushed_sorter cfg4 nat_cmp 32 112
        [17, 16, 15, 14, 13, 12, 11, 10, 9, 8, 7, 6, 5, 4, 3, 2, 1] new_block_manager
        = Some (Inr st) \<and>
      sorter_sort 2 cfg4 nat_cmp st = Some (Inr (s1, bm)) \<and>
      sorter_drain cfg4 nat_cmp bm s1
        = Inr ([1, 2, 3, 4, 5, 6, 7, 8, 9, 10, 11, 12, 13, 14, 15, 16, 17], s2) \<and>
      (\<exists>s3 s4. sorter_rewind 2 cfg4 nat_cmp (s2, bm) = Some (Inr (s3, bm)) \<and>
               sorter_drain cfg4 nat_cmp bm s3
                 = Inr ([1, 2, 3, 4, 5, 6, 7, 8, 9, 10, 11, 12, 13, 14, 15, 16, 17], s4))"
proof -
  have run: "case pushed_sorter cfg4 nat_cmp 32 112
        [17, 16, 15, 14, 13, 12, 11, 10, 9, 8, 7, 6, 5, 4, 3, 2, 1] new_block_manager of
      Some (Inr st) \<Rightarrow>
        (case sorter_sort 2 cfg4 nat_cmp st of
           Some (Inr (s1, bm)) \<Rightarrow>
             (case sorter_drain cfg4 nat_cmp bm s1 of
                Inr (out, s2) \<Rightarrow>
                  out = [1, 2, 3, 4, 5, 6, 7, 8, 9, 10, 11, 12, 13, 14, 15, 16, 17]
              | Inl e \<Rightarrow> False)
         | _ \<Rightarrow> False)
    | _ \<Rightarrow> False"
    by code_simp
  from some_inr_caseD [OF run] obtain st where
    h0: "pushed_sorter cfg4 nat_cmp 32 112
        [17, 16, 15, 14, 13, 12, 11, 10, 9, 8, 7, 6, 5, 4, 3, 2, 1] new_block_manager
        = Some (Inr st)"
    and r1: "case sorter_sort 2 cfg4 nat_cmp st of
           Some (Inr (s1, bm)) \<Rightarrow>
             (case sorter_drain cfg4 nat_cmp bm s1 of
                Inr (out, s2) \<Rightarrow>
                  out = [1, 2, 3, 4, 5, 6, 7, 8, 9, 10, 11, 12, 13, 14, 15, 16, 17]
              | Inl e \<Rightarrow> False)
         | _ \<Rightarrow> False"
    by blast
  from some_inr_caseD [OF r1] obtain s1 bm where
    h1: "sorter_sort 2 cfg4 nat_cmp st = Some (Inr (s1, bm))"
    and r2: "case sorter_drain cfg4 nat_cmp bm s1 of
                Inr (out, s2) \<Rightarrow>
                  out = [1, 2, 3, 4, 5, 6, 7, 8, 9, 10, 11, 12, 13, 14, 15, 16, 17]
              | Inl e \<Rightarrow> False"
    by auto
  from inr_caseD [OF r2] obtain s2 where
    h2: "sorter_drain cfg4 nat_cmp bm s1
        = Inr ([1, 2, 3, 4, 5, 6, 7, 8, 9, 10, 11, 12, 13, 14, 15, 16, 17], s2)"
    by auto
  show ?thesis
    using h0 h1 h2 rewind_yields_same_stream [OF disjI1 [OF h1] h2] by blast
qed

section \<open>The order of the reads\<close>















lemma copy_elements_sruns:
  "copy_elements cfg c bm n mg = Inr (out, mg') \<Longrightarrow> m_sruns mg' = m_sruns mg"
proof (induction n arbitrary: mg out)
  case 0
  then show ?case by simp
next
  case (Suc n)
  from Suc.prems obtain mg1 xs where
    i: "merger_inc cfg c bm mg = Inr mg1" and r: "copy_elements cfg c bm n mg1 = Inr (xs, mg')"
    by (auto split: sum.splits)
  show ?case using Suc.IH [OF r] merger_inc_memory [OF i] by simp
qed





end
